theory Spec2Isabelle
  imports Complex_Main "HOL-Library.Product_Lexorder"
begin

section \<open>Python strings\<close>

text \<open>
  Texts are byte strings (UTF-8). The operations below are those of Python on ASCII text,
  where \<open>str.lower\<close> and \<open>str.upper\<close> change the letters \<open>A-Z\<close> and \<open>a-z\<close> only, \<open>\d\<close> is
  \<open>0-9\<close> and \<open>float\<close> reads ASCII digits; on a text with a character outside ASCII Python
  also folds the case of other letters and takes other decimal digits (the full-width
  ones, for instance) as digits, which these definitions do not. \<open>is_ascii\<close> marks the
  texts on which the definitions are those of Python; a statement about the digits or the
  numeric conversion of an arbitrary text carries it as a hypothesis. Floats are modelled
  as exact rationals.
\<close>

definition is_ascii :: "string \<Rightarrow> bool" where
  "is_ascii s = list_all (\<lambda>c. \<not> digit7 c) s"

definition lower_char :: "char \<Rightarrow> char" where
  "lower_char c =
     (case map_of (zip ''ABCDEFGHIJKLMNOPQRSTUVWXYZ'' ''abcdefghijklmnopqrstuvwxyz'') c of
        Some d \<Rightarrow> d | None \<Rightarrow> c)"

definition upper_char :: "char \<Rightarrow> char" where
  "upper_char c =
     (case map_of (zip ''abcdefghijklmnopqrstuvwxyz'' ''ABCDEFGHIJKLMNOPQRSTUVWXYZ'') c of
        Some d \<Rightarrow> d | None \<Rightarrow> c)"

definition str_lower :: "string \<Rightarrow> string" where
  "str_lower s = map lower_char s"

definition str_upper :: "string \<Rightarrow> string" where
  "str_upper s = map upper_char s"

text \<open>\<open>str.capitalize\<close>: first character upper-cased, the rest lower-cased.\<close>

fun capitalize :: "string \<Rightarrow> string" where
  "capitalize [] = []"
| "capitalize (c # cs) = upper_char c # map lower_char cs"

fun starts_with :: "string \<Rightarrow> string \<Rightarrow> bool" where
  "starts_with [] s = True"
| "starts_with (p # ps) [] = False"
| "starts_with (p # ps) (c # cs) = (p = c \<and> starts_with ps cs)"

text \<open>\<open>contains sub s\<close> is Python's \<open>sub in s\<close> on strings.\<close>

fun contains :: "string \<Rightarrow> string \<Rightarrow> bool" where
  "contains sub [] = (sub = [])"
| "contains sub (c # cs) = (starts_with sub (c # cs) \<or> contains sub cs)"

text \<open>\<open>any_in ws s\<close> is \<open>any(w in s for w in ws)\<close>.\<close>

definition any_in :: "string list \<Rightarrow> string \<Rightarrow> bool" where
  "any_in ws s = list_ex (\<lambda>w. contains w s) ws"

text \<open>\<open>\d\<close> on an ASCII character.\<close>

definition is_digit :: "char \<Rightarrow> bool" where
  "is_digit c = (c \<in> set ''0123456789'')"

text \<open>\<open>str.isspace\<close>, which is also \<open>\s\<close>, on an ASCII character.\<close>

definition is_space :: "char \<Rightarrow> bool" where
  "is_space c = (c \<in> set [CHR 0x09, CHR 0x0A, CHR 0x0B, CHR 0x0C, CHR 0x0D, CHR 0x1C,
                            CHR 0x1D, CHR 0x1E, CHR 0x1F, CHR 0x20])"

definition digit_val :: "char \<Rightarrow> nat" where
  "digit_val c = (case map_of (zip ''0123456789'' [0, 1, 2, 3, 4, 5, 6, 7, 8, 9]) c of
                    Some d \<Rightarrow> d | None \<Rightarrow> 0)"

definition digits_val :: "string \<Rightarrow> nat" where
  "digits_val ds = foldl (\<lambda>a c. 10 * a + digit_val c) 0 ds"

text \<open>
  \<open>float(g)\<close> for a text \<open>g\<close> of the shape \<open>\d+\.?\d*\<close>, the only shape the budget parser
  passes to it.
\<close>

definition py_float :: "string \<Rightarrow> rat" where
  "py_float g =
     (let ip = takeWhile is_digit g;
          fp = takeWhile is_digit (drop (Suc (length ip)) g)
      in of_nat (digits_val ip) + of_nat (digits_val fp) / 10 ^ length fp)"

text \<open>Python's \<open>round\<close> to an integer: ties go to the even neighbour.\<close>

definition py_round :: "rat \<Rightarrow> int" where
  "py_round x =
     (let f = \<lfloor>x\<rfloor>; d = x - of_int f
      in if d < 1 / 2 then f else if 1 / 2 < d then f + 1 else if even f then f else f + 1)"

section \<open>Numeric conversion\<close>

text \<open>
  The texts that \<open>float\<close> converts, on ASCII: white space of the C locale around an
  optional sign followed by \<open>inf\<close>, \<open>infinity\<close> or \<open>nan\<close> in any case, or by a decimal
  number, that is digits with an optional point and an optional exponent, where single
  underscores may stand between digits. The conversion is read as an automaton over the
  characters; \<open>FWord w\<close> is the state inside \<open>inf\<close>, \<open>infinity\<close> or \<open>nan\<close> with \<open>w\<close> left to read.
\<close>

definition is_c_space :: "char \<Rightarrow> bool" where
  "is_c_space c = (c \<in> set [CHR 0x09, CHR 0x0A, CHR 0x0B, CHR 0x0C, CHR 0x0D, CHR 0x20])"

datatype float_state =
    FStart | FSigned | FInt | FIntUnderscore | FPointFirst | FPointAfterInt | FFrac
  | FFracUnderscore | FExpMark | FExpSigned | FExp | FExpUnderscore | FWord string | FTrailing

definition float_next :: "float_state \<Rightarrow> char \<Rightarrow> float_state option" where
  "float_next st c =
     (let e = (lower_char c = CHR ''e''); sign = (c = CHR ''+'' \<or> c = CHR ''-'');
          point = (c = CHR ''.''); us = (c = CHR ''_'')
      in case st of
           FStart \<Rightarrow>
             (if is_c_space c then Some FStart else if sign then Some FSigned
              else if is_digit c then Some FInt else if point then Some FPointFirst
              else if lower_char c = CHR ''i'' then Some (FWord ''nfinity'')
              else if lower_char c = CHR ''n'' then Some (FWord ''an'') else None)
         | FSigned \<Rightarrow>
             (if is_digit c then Some FInt else if point then Some FPointFirst
              else if lower_char c = CHR ''i'' then Some (FWord ''nfinity'')
              else if lower_char c = CHR ''n'' then Some (FWord ''an'') else None)
         | FInt \<Rightarrow>
             (if is_digit c then Some FInt else if us then Some FIntUnderscore
              else if point then Some FPointAfterInt else if e then Some FExpMark
              else if is_c_space c then Some FTrailing else None)
         | FIntUnderscore \<Rightarrow> (if is_digit c then Some FInt else None)
         | FPointFirst \<Rightarrow> (if is_digit c then Some FFrac else None)
         | FPointAfterInt \<Rightarrow>
             (if is_digit c then Some FFrac else if e then Some FExpMark
              else if is_c_space c then Some FTrailing else None)
         | FFrac \<Rightarrow>
             (if is_digit c then Some FFrac else if us then Some FFracUnderscore
              else if e then Some FExpMark else if is_c_space c then Some FTrailing else None)
         | FFracUnderscore \<Rightarrow> (if is_digit c then Some FFrac else None)
         | FExpMark \<Rightarrow>
             (if sign then Some FExpSigned else if is_digit c then Some FExp else None)
         | FExpSigned \<Rightarrow> (if is_digit c then Some FExp else None)
         | FExp \<Rightarrow>
             (if is_digit c then Some FExp else if us then Some FExpUnderscore
              else if is_c_space c then Some FTrailing else None)
         | FExpUnderscore \<Rightarrow> (if is_digit c then Some FExp else None)
         | FWord w \<Rightarrow>
             (if w \<noteq> [] \<and> lower_char c = hd w then Some (FWord (tl w))
              else if (w = [] \<or> w = ''inity'') \<and> is_c_space c then Some FTrailing else None)
         | FTrailing \<Rightarrow> (if is_c_space c then Some FTrailing else None))"

definition float_final :: "float_state \<Rightarrow> bool" where
  "float_final st =
     (case st of FInt \<Rightarrow> True | FPointAfterInt \<Rightarrow> True | FFrac \<Rightarrow> True
      | FExp \<Rightarrow> True | FTrailing \<Rightarrow> True | FWord w \<Rightarrow> w = [] \<or> w = ''inity''
      | _ \<Rightarrow> False)"

fun float_scan :: "float_state \<Rightarrow> string \<Rightarrow> bool" where
  "float_scan st [] = float_final st"
| "float_scan st (c # cs) =
     (case float_next st c of Some st' \<Rightarrow> float_scan st' cs | None \<Rightarrow> False)"

text \<open>\<open>float_accepts t\<close>: \<open>float(t)\<close> returns; otherwise it raises \<open>ValueError\<close>.\<close>

definition float_accepts :: "string \<Rightarrow> bool" where
  "float_accepts t = float_scan FStart t"

section \<open>Budget Parser\<close>

text \<open>
  The pattern \<open>(\d+\.?\d*)\s*k\<close> anchored at the head of the text. Every quantifier is
  greedy and giving characters back never reaches a \<open>k\<close>, so the greedy reading is the
  only match at a position. The result is the captured group.
\<close>

definition match_k_number :: "string \<Rightarrow> string option" where
  "match_k_number s =
     (let d1 = takeWhile is_digit s; r1 = dropWhile is_digit s
      in if d1 = [] then None
         else let dot = (if starts_with ''.'' r1 then ''.'' else []);
                  r2 = drop (length dot) r1;
                  d2 = takeWhile is_digit r2;
                  r4 = dropWhile is_space (dropWhile is_digit r2)
              in if starts_with ''k'' r4 then Some (d1 @ dot @ d2) else None)"

text \<open>First element of \<open>re.findall(r'(\d+\.?\d*)\s*k', text)\<close>, if any.\<close>

fun find_k_number :: "string \<Rightarrow> string option" where
  "find_k_number [] = None"
| "find_k_number (c # cs) =
     (case match_k_number (c # cs) of Some g \<Rightarrow> Some g | None \<Rightarrow> find_k_number cs)"

text \<open>First element of \<open>re.findall(r'\d+', text)\<close>; the empty string when there is none.\<close>

definition first_digits :: "string \<Rightarrow> string" where
  "first_digits s = takeWhile is_digit (dropWhile (\<lambda>c. \<not> is_digit c) s)"

datatype constraint_kind = Below | Above | Around

text \<open>An upper bound that may be \<open>float('inf')\<close>.\<close>

datatype bound = Finite rat | Infinity

record constraints =
  min_price :: "rat option"
  max_price :: "rat option"
  constraint_type :: constraint_kind
  max_price_jpy :: bound
  min_price_jpy :: rat
  target_price_jpy :: rat

definition yen_to_inr_rate :: rat where
  "yen_to_inr_rate = 60 / 100"

text \<open>The dictionary \<open>constraints\<close> as initialised at the head of \<open>_parse_budget_constraints\<close>.\<close>

definition initial_constraints :: constraints where
  "initial_constraints =
     \<lparr> min_price = None, max_price = None, constraint_type = Around,
       max_price_jpy = Infinity, min_price_jpy = 0, target_price_jpy = 0 \<rparr>"

text \<open>The amount the parser extracts: the \<open>k\<close> form first, then the first run of digits.\<close>

definition budget_amount :: "string \<Rightarrow> rat option" where
  "budget_amount budget_text =
     (case find_k_number budget_text of
        Some g \<Rightarrow> Some (py_float g * 1000)
      | None \<Rightarrow> (if first_digits budget_text = [] then None
                 else Some (py_float (first_digits budget_text))))"

text \<open>
  \<open>_parse_budget_constraints\<close>. \<open>None\<close> is Python's \<open>None\<close>. The argument is the budget
  entity as text.
\<close>

definition parse_budget_constraints :: "string \<Rightarrow> constraints option" where
  "parse_budget_constraints budget_text0 =
     (if budget_text0 = [] then None
      else let budget_text = str_lower budget_text0
           in case budget_amount budget_text of
                None \<Rightarrow> Some initial_constraints
              | Some amount \<Rightarrow>
                  (let inr_amount = amount * yen_to_inr_rate
                   in if any_in [''under'', ''below'', ''less than'', ''upto'', ''max'',
                                 ''maximum'', ''at most''] budget_text
                      then Some (initial_constraints
                             \<lparr> max_price := Some inr_amount, max_price_jpy := Finite amount,
                               constraint_type := Below \<rparr>)
                      else if any_in [''over'', ''above'', ''more than'', ''minimum'',
                                      ''at least''] budget_text
                      then Some (initial_constraints
                             \<lparr> min_price := Some inr_amount, min_price_jpy := amount,
                               constraint_type := Above \<rparr>)
                      else if any_in [''around'', ''about'', ''approximately'', ''~'', ''avg'',
                                      ''average''] budget_text
                      then Some (initial_constraints
                             \<lparr> min_price := Some (inr_amount * (8 / 10)),
                               max_price := Some (inr_amount * (12 / 10)),
                               min_price_jpy := amount * (8 / 10),
                               max_price_jpy := Finite (amount * (12 / 10)),
                               target_price_jpy := amount,
                               constraint_type := Around \<rparr>)
                      else Some (initial_constraints
                             \<lparr> max_price := Some inr_amount, max_price_jpy := Finite amount,
                               constraint_type := Below \<rparr>)))"

section \<open>Product Finder\<close>

text \<open>
  A match of the search collaborator: its id, its score and the metadata fields the
  finder reads. A metadata number is \<open>None\<close> when the field is missing or does not
  convert (\<open>_safe_float\<close> then returns its default). \<open>md_colors\<close> is the first non-empty
  colour field, already cleaned of quotes and brackets, if there is one.
\<close>

record match =
  match_id :: string
  score :: rat
  md_name :: "string option"
  md_brand :: "string option"
  md_price :: "rat option"
  md_rating :: "rat option"
  md_colors :: "string option"

record product =
  name :: string
  brand :: string
  price :: int
  original_price_inr :: rat
  rating :: rat
  colors :: string
  product_score :: rat

definition safe_float :: "rat option \<Rightarrow> rat \<Rightarrow> rat" where
  "safe_float v dflt = (case v of None \<Rightarrow> dflt | Some x \<Rightarrow> x)"

text \<open>\<open>_extract_product_data\<close>: \<open>None\<close> when the converted price is not positive.\<close>

definition extract_product_data :: "match \<Rightarrow> product option" where
  "extract_product_data m =
     (let inr_price = safe_float (md_price m) 0;
          jpy_price = (if inr_price \<noteq> 0 then py_round (inr_price / yen_to_inr_rate) else 0);
          product_data =
            \<lparr> name = (case md_name m of Some n \<Rightarrow> n | None \<Rightarrow> ''Unknown Laptop''),
              brand = (case md_brand m of Some b \<Rightarrow> b | None \<Rightarrow> ''Unknown''),
              price = jpy_price,
              original_price_inr = inr_price,
              rating = safe_float (md_rating m) 4,
              colors = (case md_colors m of Some c \<Rightarrow> c | None \<Rightarrow> ''Not specified''),
              product_score = score m \<rparr>
      in if price product_data \<le> 0 then None else Some product_data)"

definition bound_times :: "bound \<Rightarrow> rat \<Rightarrow> bound" where
  "bound_times b k = (case b of Finite x \<Rightarrow> Finite (x * k) | Infinity \<Rightarrow> Infinity)"

definition exceeds :: "rat \<Rightarrow> bound \<Rightarrow> bool" where
  "exceeds x b = (case b of Finite y \<Rightarrow> y < x | Infinity \<Rightarrow> False)"

text \<open>
  The strict manual price filter inside the loop of \<open>_get_product_recommendations\<close>
  (and of \<open>_metadata_based_search\<close>): \<open>True\<close> when the product is appended, \<open>False\<close> when
  the loop takes \<open>continue\<close>.
\<close>

definition passes_price_filter :: "constraints option \<Rightarrow> int \<Rightarrow> bool" where
  "passes_price_filter budget_constraints jpy_price =
     (case budget_constraints of
        None \<Rightarrow> True
      | Some bc \<Rightarrow>
          (let max_jpy = max_price_jpy bc; min_jpy = min_price_jpy bc
           in if constraint_type bc = Below \<and> exceeds (of_int jpy_price) max_jpy then False
              else if constraint_type bc = Above \<and> of_int jpy_price < min_jpy then False
              else if constraint_type bc = Around
              then (let lower_bound = min_jpy * (8 / 10);
                        upper_bound = bound_times max_jpy (12 / 10)
                    in \<not> (of_int jpy_price < lower_bound \<or> exceeds (of_int jpy_price) upper_bound))
              else True))"

text \<open>The loop over the matches of the semantic search.\<close>

fun collect_products :: "constraints option \<Rightarrow> match list \<Rightarrow> product list" where
  "collect_products bc [] = []"
| "collect_products bc (m # ms) =
     (if 1 / 10 < score m
      then (case extract_product_data m of
              None \<Rightarrow> collect_products bc ms
            | Some product_data \<Rightarrow>
                (if 0 < price product_data \<and> passes_price_filter bc (price product_data)
                 then product_data # collect_products bc ms
                 else collect_products bc ms))
      else collect_products bc ms)"

text \<open>The loop of the metadata search: no score threshold.\<close>

fun collect_metadata_products :: "constraints option \<Rightarrow> match list \<Rightarrow> product list" where
  "collect_metadata_products bc [] = []"
| "collect_metadata_products bc (m # ms) =
     (case extract_product_data m of
        None \<Rightarrow> collect_metadata_products bc ms
      | Some product_data \<Rightarrow>
          (if 0 < price product_data \<and> passes_price_filter bc (price product_data)
           then product_data # collect_metadata_products bc ms
           else collect_metadata_products bc ms))"

text \<open>The sort keys; Python's sort is stable, as \<open>sort_key\<close> is.\<close>

definition rank_products :: "constraints option \<Rightarrow> bool \<Rightarrow> product list \<Rightarrow> product list" where
  "rank_products budget_constraints metadata products =
     (case budget_constraints of
        Some bc \<Rightarrow>
          (if constraint_type bc = Below
           then sort_key (\<lambda>x. (- of_int (price x) :: rat, - rating x)) products
           else if constraint_type bc = Above
           then sort_key (\<lambda>x. (of_int (price x) :: rat, - rating x)) products
           else sort_key (\<lambda>x. (\<bar>of_int (price x) - target_price_jpy bc\<bar>, - rating x)) products)
      | None \<Rightarrow>
          (if metadata then sort_key (\<lambda>x. (- rating x, of_int (price x) :: rat)) products
           else sort_key (\<lambda>x. (- product_score x, - rating x)) products))"

record recommendations =
  rec_products :: "product list"
  rec_count :: nat

definition brands_metadata :: "string list" where
  "brands_metadata = [''dell'', ''hp'', ''lenovo'', ''apple'', ''asus'', ''acer'', ''infinix'',
                      ''msi'', ''realme'', ''redmi'', ''gigabyte'', ''samsung'', ''avita'',
                      ''redmibook'']"

text \<open>
  \<open>_metadata_based_search\<close>. \<open>query_by_brand\<close> is the metadata-only query of the search
  collaborator for the brand spellings given (no matches when it fails).
\<close>

definition metadata_based_search ::
  "(string list \<Rightarrow> match list) \<Rightarrow> string \<Rightarrow> constraints option \<Rightarrow> recommendations option" where
  "metadata_based_search query_by_brand search_query budget_constraints =
     (case find (\<lambda>b. contains b (str_lower search_query)) brands_metadata of
        None \<Rightarrow> None
      | Some detected_brand \<Rightarrow>
          (let brand_variations = remdups [str_upper detected_brand, capitalize detected_brand,
                                           str_lower detected_brand];
               products = collect_metadata_products budget_constraints
                            (query_by_brand brand_variations)
           in if products = [] then None
              else Some \<lparr> rec_products = take 6 (rank_products budget_constraints True products),
                          rec_count = length products \<rparr>))"

text \<open>
  \<open>_get_product_recommendations\<close>. \<open>search_products\<close> is the semantic search of the
  collaborator (no matches when it fails or returns nothing).
\<close>

definition get_product_recommendations ::
  "(string \<Rightarrow> match list) \<Rightarrow> (string list \<Rightarrow> match list) \<Rightarrow> string \<Rightarrow> constraints option
     \<Rightarrow> recommendations option" where
  "get_product_recommendations search_products query_by_brand search_query budget_constraints =
     (let products = collect_products budget_constraints (search_products search_query)
      in if products \<noteq> []
         then Some \<lparr> rec_products = take 6 (rank_products budget_constraints False products),
                     rec_count = length products \<rparr>
         else metadata_based_search query_by_brand search_query budget_constraints)"

section \<open>More string operations\<close>

definition truthy :: "string option \<Rightarrow> bool" where
  "truthy v = (case v of Some s \<Rightarrow> s \<noteq> [] | None \<Rightarrow> False)"

text \<open>\<open>str.strip()\<close> and \<open>str.split()\<close> without arguments.\<close>

definition strip :: "string \<Rightarrow> string" where
  "strip s = rev (dropWhile is_space (rev (dropWhile is_space s)))"

fun split_acc :: "string \<Rightarrow> string \<Rightarrow> string list" where
  "split_acc w [] = (if w = [] then [] else [rev w])"
| "split_acc w (c # cs) =
     (if is_space c then (if w = [] then split_acc [] cs else rev w # split_acc [] cs)
      else split_acc (c # w) cs)"

definition split_words :: "string \<Rightarrow> string list" where
  "split_words s = split_acc [] s"

text \<open>\<open>s.replace(old, new)\<close> for a non-empty \<open>old\<close>, the only use the sources make of it.\<close>

fun replace :: "string \<Rightarrow> string \<Rightarrow> string \<Rightarrow> string" where
  "replace old new [] = []"
| "replace old new (c # cs) =
     (if old \<noteq> [] \<and> starts_with old (c # cs)
      then new @ replace old new (drop (length old - 1) cs)
      else c # replace old new cs)"

definition newline :: char where
  "newline = CHR 0x0A"

text \<open>The UTF-8 bytes of the yen sign, the check mark and the bullet.\<close>

definition yen_sign :: string where
  "yen_sign = [CHR 0xC2, CHR 0xA5]"

definition check_mark :: string where
  "check_mark = [CHR 0xE2, CHR 0x9C, CHR 0x85]"

definition bullet :: string where
  "bullet = [CHR 0xE2, CHR 0x80, CHR 0xA2]"

section \<open>Order ids\<close>

text \<open>
  The pattern \<open>ORD[_-]?\d+\<close> (\<open>separator_optional\<close>) or \<open>ORD-\d+\<close>, ignoring case, anchored
  at the head of the text; the result is the matched text.
\<close>

definition match_order_id :: "bool \<Rightarrow> string \<Rightarrow> string option" where
  "match_order_id separator_optional s =
     (if str_lower (take 3 s) = ''ord''
      then (let r = drop 3 s;
                sep = (if separator_optional
                       then (if starts_with ''_'' r \<or> starts_with ''-'' r then take 1 r else [])
                       else (if starts_with ''-'' r then take 1 r else []));
                ds = takeWhile is_digit (drop (length sep) r)
            in if ds = [] \<or> (\<not> separator_optional \<and> sep = []) then None
               else Some (take 3 s @ sep @ ds))
      else None)"

text \<open>\<open>re.search(pattern, text, re.IGNORECASE)\<close>: the leftmost match, \<open>group(0)\<close>.\<close>

fun search_order_id :: "bool \<Rightarrow> string \<Rightarrow> string option" where
  "search_order_id separator_optional [] = None"
| "search_order_id separator_optional (c # cs) =
     (case match_order_id separator_optional (c # cs) of
        Some g \<Rightarrow> Some g
      | None \<Rightarrow> search_order_id separator_optional cs)"

text \<open>The normalisation to the \<open>ORD-\<close> form applied after the first pattern.\<close>

definition normalise_order_id :: "string \<Rightarrow> string" where
  "normalise_order_id g =
     (let order_id = replace ''_'' ''-'' (str_upper g)
      in if \<not> starts_with ''ORD-'' order_id then replace ''ORD'' ''ORD-'' order_id
         else order_id)"

section \<open>Session data\<close>

text \<open>The identity snapshot of a user; \<open>NoUser\<close> is the empty dictionary.\<close>

datatype user = NoUser | User (user_id: string) (username: string)

text \<open>The three values \<open>transaction_type\<close> takes: \<open>cancellation\<close>, \<open>return\<close>, \<open>warranty\<close>.\<close>

datatype transaction_kind = Cancellation | Return | Warranty

definition kind_name :: "transaction_kind \<Rightarrow> string" where
  "kind_name k = (case k of Cancellation \<Rightarrow> ''cancellation'' | Return \<Rightarrow> ''return''
                  | Warranty \<Rightarrow> ''warranty'')"

text \<open>The three intents that enter the transaction workflow.\<close>

datatype transaction_intent = CancellationRequest | ReturnRequest | WarrantyClaim

definition intent_name :: "transaction_intent \<Rightarrow> string" where
  "intent_name i = (case i of CancellationRequest \<Rightarrow> ''cancellation_request''
                    | ReturnRequest \<Rightarrow> ''return_request'' | WarrantyClaim \<Rightarrow> ''warranty_claim'')"

definition intent_kind :: "transaction_intent \<Rightarrow> transaction_kind" where
  "intent_kind i = (case i of CancellationRequest \<Rightarrow> Cancellation | ReturnRequest \<Rightarrow> Return
                    | WarrantyClaim \<Rightarrow> Warranty)"

text \<open>An order as \<open>_get_order_info\<close> formats it.\<close>

record order_info =
  order_id :: string
  product_name :: string
  order_price :: rat
  status :: string
  order_date :: string
  delivery_date :: string
  carrier :: string
  tracking_number :: string
  currency :: "string option"

text \<open>The metadata of an order as the order store returns it.\<close>

record raw_order =
  raw_order_id :: "string option"
  raw_product_name :: "string option"
  raw_price :: "rat option"
  raw_status :: "string option"
  raw_order_date :: "string option"
  raw_actual_delivery :: "string option"
  raw_estimated_delivery :: "string option"
  raw_carrier :: "string option"
  raw_tracking_number :: "string option"

type_synonym entities = "string \<rightharpoonup> string"

text \<open>
  The session context. A key of the dictionary is a field; \<open>None\<close> is an absent key. The
  entities merged into the context are kept in \<open>merged_entities\<close>: the names the
  understanding step produces (brand, max_price, order_id, ...) are taken to be distinct
  from the control keys below.
\<close>

record session_context =
  ctx_user_data :: "user option"
  in_purchase_flow :: "bool option"
  current_products :: "product list option"
  last_search_query :: "string option"
  awaiting_confirmation :: "bool option"
  awaiting_reason :: "bool option"
  awaiting_order_id :: "bool option"
  awaiting_warranty_confirmation :: "bool option"
  transaction_type :: "transaction_kind option"
  transaction_reason :: "string option"
  current_order :: "order_info option"
  current_order_id :: "string option"
  merged_entities :: entities

definition empty_context :: session_context where
  "empty_context =
     \<lparr> ctx_user_data = None, in_purchase_flow = None, current_products = None,
       last_search_query = None, awaiting_confirmation = None, awaiting_reason = None,
       awaiting_order_id = None, awaiting_warranty_confirmation = None,
       transaction_type = None, transaction_reason = None, current_order = None,
       current_order_id = None, merged_entities = Map.empty \<rparr>"

text \<open>\<open>context.get(key)\<close> read as a condition.\<close>

definition is_set :: "bool option \<Rightarrow> bool" where
  "is_set v = (v = Some True)"

definition has_products :: "session_context \<Rightarrow> bool" where
  "has_products ctx = (case current_products ctx of Some ps \<Rightarrow> ps \<noteq> [] | None \<Rightarrow> False)"

text \<open>
  The reply handed to the transport layer: its text, its intent (absent from the last
  fallback), the display payload and the flags. The quick-reply buttons and the echoed
  entities are left out.
\<close>

record response =
  response_text :: string
  intent :: "string option"
  display_type :: "string option"
  resp_products :: "product list"
  resp_orders :: "order_info list"
  escalated :: bool
  offers_escalation :: bool
  reset_context :: bool

definition reply :: "string \<Rightarrow> string option \<Rightarrow> response" where
  "reply t i =
     \<lparr> response_text = t, intent = i, display_type = None, resp_products = [], resp_orders = [],
       escalated = False, offers_escalation = False, reset_context = False \<rparr>"

text \<open>A record appended to the transaction store by a commit.\<close>

record transaction =
  transaction_id :: string
  transaction_kind :: transaction_kind
  transaction_user :: user
  transaction_order_id :: string
  transaction_product :: string
  transaction_amount :: rat
  logged_reason :: string

text \<open>
  The external collaborators as they answer during one message: the language model
  behind each rendering call (its text, or the fixed template the call falls back to),
  the understanding call, the search service, the order store, the identifier source and
  the fixed warranty policy text.

  \<open>gpt_understanding\<close> is the decoded answer of the understanding call, with the defaults
  for a missing intent or a missing entity dictionary filled in; \<open>None\<close> when the call or
  the decoding fails. The value of an entity is a text: a number of the answer is taken
  as the text Python prints for it. \<open>inr_price_text\<close> gives, for the text of the budget
  entity, the text of the converted amount stored under \<open>max_price_inr\<close>.
\<close>

record collaborators =
  gpt_understanding :: "(string \<times> entities) option"
  chat_reply :: "string option"
  fallback_reply :: string
  order_reply :: "order_info \<Rightarrow> string"
  order_id_request_reply :: "transaction_kind \<Rightarrow> string"
  reason_request_reply :: "transaction_kind \<Rightarrow> string"
  confirmation_reply :: "transaction_kind option \<Rightarrow> order_info \<Rightarrow> string \<Rightarrow> string"
  tracking_reply :: "order_info \<Rightarrow> string"
  search_query_reply :: string
  product_reply :: "product list \<Rightarrow> string"
  color_reply :: "product list \<Rightarrow> string"
  comparison_result :: "(string \<times> product list) option"
  search_products :: "string \<Rightarrow> match list"
  query_by_brand :: "string list \<Rightarrow> match list"
  get_order_by_id :: "string \<Rightarrow> raw_order option"
  user_orders :: "order_info list"
  inr_price_text :: "string \<Rightarrow> string"
  uuid4 :: string
  policy_text :: string
  format_amount :: "rat \<Rightarrow> string"

text \<open>
  The dialogue manager: the attributes of the instance, with the transaction store of its
  transaction service. \<open>handoff_attempts\<close> counts the times the handoff call of
  \<open>_handle_escalation_response\<close> was reached. \<open>current_state\<close> is always empty and is left
  out.
\<close>

record dialogue_manager =
  dm_context :: session_context
  user_data :: user
  conversation_history :: "(string \<times> string) list"
  response_count :: nat
  escalation_offered :: bool
  escalation_pending :: bool
  transaction_log :: "transaction list"
  handoff_attempts :: nat

text \<open>The manager as \<open>__init__\<close> leaves it.\<close>

definition initial_manager :: dialogue_manager where
  "initial_manager =
     \<lparr> dm_context = empty_context, user_data = NoUser, conversation_history = [],
       response_count = 0, escalation_offered = False, escalation_pending = False,
       transaction_log = [], handoff_attempts = 0 \<rparr>"

section \<open>Orders\<close>

definition sample_order ::
  "string \<Rightarrow> string \<Rightarrow> rat \<Rightarrow> string \<Rightarrow> string \<Rightarrow> string \<Rightarrow> string \<Rightarrow> string \<Rightarrow> order_info" where
  "sample_order oid pname inr_price st odate ddate carr track =
     \<lparr> order_id = oid, product_name = pname,
       order_price = of_int (py_round (inr_price / yen_to_inr_rate)), status = st,
       order_date = odate, delivery_date = ddate, carrier = carr, tracking_number = track,
       currency = Some ''JPY'' \<rparr>"

text \<open>\<open>_get_sample_order_info\<close>: the three demonstration orders, prices converted to yen.\<close>

definition get_sample_order_info :: "string \<Rightarrow> order_info option" where
  "get_sample_order_info oid =
     (let key = str_upper oid
      in if key = ''ORD-1001''
         then Some (sample_order ''ORD-1001'' ''HP Pavilion Gaming Laptop'' 89900 ''Delivered''
                      ''2023-10-15'' ''2023-10-20'' ''BlueDart'' ''700000000001'')
         else if key = ''ORD-1002''
         then Some (sample_order ''ORD-1002'' ''ASUS TUF Gaming F15 Core i5 10th Gen'' 49990
                      ''Delivered'' ''2025-09-01'' ''2025-09-05'' ''BlueDart'' ''700000000002'')
         else if key = ''ORD-1005''
         then Some (sample_order ''ORD-1005'' ''APPLE 2020 Macbook Air M1'' 144983 ''Confirmed''
                      ''2025-09-04'' ''2025-09-11'' ''FedEx'' ''700000000005'')
         else None)"

definition get_or :: "string option \<Rightarrow> string \<Rightarrow> string" where
  "get_or v dflt = (case v of Some s \<Rightarrow> s | None \<Rightarrow> dflt)"

text \<open>The formatting of a stored order inside \<open>_get_order_info\<close>.\<close>

definition format_order :: "raw_order \<Rightarrow> order_info" where
  "format_order order_data =
     (let p = safe_float (raw_price order_data) 0
      in \<lparr> order_id = get_or (raw_order_id order_data) ''N/A'',
           product_name = get_or (raw_product_name order_data) ''Unknown Laptop'',
           order_price = (if 0 < p then of_int (py_round (p / yen_to_inr_rate)) else p),
           status = capitalize (str_lower (get_or (raw_status order_data) ''Unknown'')),
           order_date = get_or (raw_order_date order_data) ''Unknown'',
           delivery_date = (if truthy (raw_actual_delivery order_data)
                            then get_or (raw_actual_delivery order_data) []
                            else get_or (raw_estimated_delivery order_data) ''Unknown''),
           carrier = get_or (raw_carrier order_data) [],
           tracking_number = get_or (raw_tracking_number order_data) [],
           currency = (if 0 < p then Some ''JPY'' else None) \<rparr>)"

text \<open>\<open>_get_order_info\<close>: the stored order, else the demonstration data.\<close>

definition get_order_info :: "collaborators \<Rightarrow> string \<Rightarrow> order_info option" where
  "get_order_info co oid =
     (case get_order_by_id co oid of
        Some order_data \<Rightarrow> Some (format_order order_data)
      | None \<Rightarrow> get_sample_order_info oid)"

section \<open>Transaction service\<close>

definition get_reasons :: "transaction_kind option \<Rightarrow> string list" where
  "get_reasons k =
     (case k of
        Some Cancellation \<Rightarrow> [''Found better price elsewhere'', ''Changed my mind'',
                               ''Ordered by mistake'', ''Delivery too long'', ''Other'']
      | Some Return \<Rightarrow> [''Faulty/Defective'', ''Wrong item received'',
                         ''Item not as described'', ''No longer needed'', ''Other'']
      | Some Warranty \<Rightarrow> [''Battery issues'', ''Screen problems'', ''Performance issues'',
                           ''Hardware failure'', ''Software problems'', ''Other'']
      | None \<Rightarrow> [])"

text \<open>\<open>_generate_transaction_id\<close>: the prefix, a dash, the first eight characters of the
  text of a fresh UUID in upper case.\<close>

definition generate_transaction_id :: "collaborators \<Rightarrow> string \<Rightarrow> string" where
  "generate_transaction_id co prefix = prefix @ ''-'' @ str_upper (take 8 (uuid4 co))"

definition kind_prefix :: "transaction_kind \<Rightarrow> string" where
  "kind_prefix k = (case k of Cancellation \<Rightarrow> ''CXL'' | Return \<Rightarrow> ''REF'' | Warranty \<Rightarrow> ''WAR'')"

text \<open>\<open>log_cancellation\<close>, \<open>log_refund\<close>, \<open>log_warranty_claim\<close>: the record stored and its id.
  The store's own failures are outside the model.\<close>

definition log_transaction ::
  "collaborators \<Rightarrow> transaction_kind \<Rightarrow> user \<Rightarrow> order_info \<Rightarrow> string \<Rightarrow> transaction" where
  "log_transaction co k u order_data reason =
     \<lparr> transaction_id = generate_transaction_id co (kind_prefix k), transaction_kind = k,
       transaction_user = u, transaction_order_id = order_id order_data,
       transaction_product = product_name order_data,
       transaction_amount = order_price order_data, logged_reason = reason \<rparr>"

section \<open>Handlers\<close>

text \<open>\<open>ResponseGenerator.generate_response\<close> called with a message in its data.\<close>

definition generate_response :: "string \<Rightarrow> string \<Rightarrow> response" where
  "generate_response intent_label message = reply message (Some intent_label)"

text \<open>\<open>_handle_with_gpt_fallback\<close>: a reply with no intent.\<close>

definition handle_with_gpt_fallback :: "collaborators \<Rightarrow> response" where
  "handle_with_gpt_fallback co = reply (fallback_reply co) None"

definition clear_keys :: "bool \<Rightarrow> session_context \<Rightarrow> session_context" where
  "clear_keys with_flag c =
     (if with_flag
      then c\<lparr> current_products := None, last_search_query := None, in_purchase_flow := None \<rparr>
      else c\<lparr> current_products := None, last_search_query := None \<rparr>)"

text \<open>\<open>_handle_with_gpt\<close>: the purchase keys are dropped unless the purchase flow is on.\<close>

definition handle_with_gpt ::
  "collaborators \<Rightarrow> session_context \<Rightarrow> string \<Rightarrow> session_context \<times> response" where
  "handle_with_gpt co c intent_label =
     (let c' = (if \<not> is_set (in_purchase_flow c) then clear_keys False c else c)
      in (c', case chat_reply co of
                Some t \<Rightarrow> reply t (Some intent_label)
              | None \<Rightarrow> handle_with_gpt_fallback co))"

definition is_warranty_policy_inquiry :: "string \<Rightarrow> bool" where
  "is_warranty_policy_inquiry user_message =
     (let user_message_lower = str_lower user_message;
          has_policy_keywords =
            any_in [''warranty policy'', ''warranty information'', ''warranty terms'',
                    ''warranty coverage'', ''what is covered'', ''warranty details'',
                    ''policy'', ''policies'', ''terms and conditions'',
                    ''what is the warranty'', ''how does warranty work'', ''warranty period'']
              user_message_lower;
          has_claim_keywords =
            any_in [''warranty claim'', ''file warranty'', ''make warranty'',
                    ''request warranty'', ''warranty request'', ''need warranty'',
                    ''want warranty''] user_message_lower
      in has_policy_keywords \<and> \<not> has_claim_keywords)"

definition policy_response :: "collaborators \<Rightarrow> response" where
  "policy_response co =
     (reply (policy_text co @ [newline] @ ''Would you like to proceed with your warranty claim?'')
        (Some ''warranty_policy'')) \<lparr> display_type := Some ''policy_view'' \<rparr>"

definition handle_warranty_policy_inquiry ::
  "collaborators \<Rightarrow> session_context \<Rightarrow> session_context \<times> response" where
  "handle_warranty_policy_inquiry co c =
     (c\<lparr> awaiting_warranty_confirmation := Some True \<rparr>, policy_response co)"

definition request_name :: "transaction_kind option \<Rightarrow> string" where
  "request_name k = (case k of Some t \<Rightarrow> kind_name t | None \<Rightarrow> ''None'') @ ''_request''"

definition ask_for_reason :: "collaborators \<Rightarrow> transaction_kind \<Rightarrow> response" where
  "ask_for_reason co k = generate_response (request_name (Some k)) (reason_request_reply co k)"

definition warranty_positive_responses :: "string list" where
  "warranty_positive_responses =
     [''yes'', ''yeah'', ''yep'', ''sure'', ''ok'', ''okay'', ''proceed'', ''confirm'',
      ''continue'', ''ok'', ''alright'']"

definition handle_warranty_confirmation ::
  "collaborators \<Rightarrow> session_context \<Rightarrow> string \<Rightarrow> session_context \<times> response" where
  "handle_warranty_confirmation co c user_message =
     (if any_in warranty_positive_responses (str_lower user_message)
      then (c\<lparr> awaiting_warranty_confirmation := Some False, awaiting_reason := Some True \<rparr>,
            ask_for_reason co Warranty)
      else handle_with_gpt co (c\<lparr> awaiting_warranty_confirmation := Some False \<rparr>)
             ''general_question'')"

definition show_order_and_ask_for_reason ::
  "collaborators \<Rightarrow> session_context \<Rightarrow> order_info \<Rightarrow> transaction_kind
     \<Rightarrow> session_context \<times> response" where
  "show_order_and_ask_for_reason co c order_details k =
     (c\<lparr> awaiting_reason := Some True \<rparr>,
      (reply (order_reply co order_details) (Some (request_name (Some k))))
        \<lparr> resp_orders := [order_details], display_type := Some ''order_grid'' \<rparr>)"

text \<open>\<open>_handle_transaction_intent\<close>, for the three intents it is called with.\<close>

definition handle_transaction_intent ::
  "collaborators \<Rightarrow> session_context \<Rightarrow> transaction_intent \<Rightarrow> entities
     \<Rightarrow> session_context \<times> response" where
  "handle_transaction_intent co c0 ti ents =
     (let oid = (if truthy (ents ''order_id'') then ents ''order_id'' else current_order_id c0);
          k = intent_kind ti;
          c1 = c0\<lparr> transaction_type := Some k \<rparr>
      in if truthy oid
         then (case get_order_info co (get_or oid []) of
                 Some order_details \<Rightarrow>
                   (let c2 = c1\<lparr> current_order := Some order_details, current_order_id := oid \<rparr>;
                        st = str_lower (status order_details)
                    in case k of
                         Cancellation \<Rightarrow>
                           (if st = ''delivered''
                            then (c2, generate_response ''cancellation_request''
                                   (''This order has already been delivered. Cancellation is ''
                                    @ ''not possible for delivered orders. Would you like to ''
                                    @ ''initiate a return instead?''))
                            else show_order_and_ask_for_reason co c2 order_details Cancellation)
                       | Return \<Rightarrow>
                           (if st \<noteq> ''delivered''
                            then (c2, generate_response (intent_name ti)
                                   (''This order has status: '' @ st
                                    @ ''. Returns are only possible for delivered items.''))
                            else show_order_and_ask_for_reason co c2 order_details Return)
                       | Warranty \<Rightarrow>
                           (if st \<noteq> ''delivered''
                            then (c2, generate_response (intent_name ti)
                                   (''This order has status: '' @ st
                                    @ ''. Warranty claims are only possible for delivered items.''))
                            else show_order_and_ask_for_reason co c2 order_details Warranty))
               | None \<Rightarrow> handle_with_gpt co c1 ''order_status'')
         else (c1\<lparr> awaiting_order_id := Some True \<rparr>,
               generate_response (intent_name ti) (order_id_request_reply co k)))"

text \<open>\<open>_handle_context_switching\<close>; the \<open>None\<close> reply is Python's \<open>None\<close>.\<close>

definition handle_context_switching ::
  "collaborators \<Rightarrow> session_context \<Rightarrow> string \<Rightarrow> session_context \<times> response option" where
  "handle_context_switching co c user_message =
     (if is_warranty_policy_inquiry user_message
      then (case handle_warranty_policy_inquiry co c of (c', r) \<Rightarrow> (c', Some r))
      else if any_in [''warranty claim'', ''warranty request'', ''file warranty'',
                      ''make warranty''] (str_lower user_message)
      then (let c1 = clear_keys True c
            in case search_order_id True user_message of
                 Some g \<Rightarrow>
                   (case handle_transaction_intent co c1 WarrantyClaim
                           [''order_id'' \<mapsto> normalise_order_id g] of
                      (c', r) \<Rightarrow> (c', Some r))
               | None \<Rightarrow>
                   (case handle_with_gpt co
                           (c1\<lparr> awaiting_order_id := Some True,
                                transaction_type := Some Warranty \<rparr>) ''warranty_claim'' of
                      (c', r) \<Rightarrow> (c', Some r)))
      else (c, None))"

definition should_use_gpt_directly :: "string \<Rightarrow> bool" where
  "should_use_gpt_directly user_message =
     (if newline \<in> set user_message then True
      else if any_in [''compare'', ''comparison'', ''vs'', ''versus'', ''difference between'',
                      ''which is better''] (str_lower user_message) then True
      else if any_in [''is this.*available in'', ''how do i track'', ''can i return'',
                      ''what.*warranty'', ''how.*return'', ''where.*track'', ''do you have'',
                      ''when will'', ''how long'', ''what is'', ''tell me about'', ''explain'',
                      ''help with''] (str_lower user_message) then True
      else if any_in [''what is the difference'', ''how does'', ''why should'',
                      ''tell me about'', ''explain'', ''pros and cons'',
                      ''advantages and disadvantages''] (str_lower user_message) then True
      else False)"

definition brands_understanding :: "string list" where
  "brands_understanding = [''acer'', ''hp'', ''lenovo'', ''dell'', ''apple'', ''asus'', ''infinix'',
                           ''msi'', ''realme'', ''redmi'', ''gigabyte'', ''samsung'', ''avita'',
                           ''redmibook'']"

text \<open>
  \<open>_understand_with_gpt\<close>: the order-id rule, the brand rule, then the language model. A
  budget entity of its answer is converted by \<open>float\<close>; when the model fails, or the
  conversion raises, the \<open>except\<close> clause answers \<open>general_question\<close> with no entity.
\<close>

definition understand_with_gpt :: "collaborators \<Rightarrow> string \<Rightarrow> string \<times> entities" where
  "understand_with_gpt co user_message =
     (case search_order_id True user_message of
        Some g \<Rightarrow> (''order_status'', [''order_id'' \<mapsto> normalise_order_id g])
      | None \<Rightarrow>
          (case find (\<lambda>b. contains b (str_lower user_message)) brands_understanding of
             Some detected_brand \<Rightarrow> (''product_inquiry'', [''brand'' \<mapsto> detected_brand])
           | None \<Rightarrow>
               (case gpt_understanding co of
                  Some (intent_label, ents) \<Rightarrow>
                    (case ents ''max_price'' of
                       Some jpy_price \<Rightarrow>
                         (if float_accepts jpy_price
                          then (intent_label,
                                ents(''max_price_inr'' \<mapsto> inr_price_text co jpy_price))
                          else (''general_question'', Map.empty))
                     | None \<Rightarrow> (intent_label, ents))
                | None \<Rightarrow> (''general_question'', Map.empty))))"

definition order_grid :: "string \<Rightarrow> string option \<Rightarrow> order_info list \<Rightarrow> response" where
  "order_grid t i os = (reply t i) \<lparr> resp_orders := os, display_type := Some ''order_grid'' \<rparr>"

definition handle_order_id_response ::
  "collaborators \<Rightarrow> session_context \<Rightarrow> string \<Rightarrow> string \<Rightarrow> entities
     \<Rightarrow> session_context \<times> response" where
  "handle_order_id_response co c user_message intent_label ents =
     (let oid = (if truthy (ents ''order_id'') then ents ''order_id''
                 else map_option str_upper (search_order_id False user_message))
      in if truthy oid
         then (let c1 = c\<lparr> current_order_id := oid, awaiting_order_id := Some False \<rparr>
               in case get_order_info co (get_or oid []) of
                    Some order_details \<Rightarrow>
                      (let c2 = c1\<lparr> current_order := Some order_details \<rparr>
                       in if transaction_type c2 = Some Warranty
                          then (c2\<lparr> awaiting_warranty_confirmation := Some True \<rparr>,
                                policy_response co)
                          else (c2, order_grid (order_reply co order_details)
                                      (Some intent_label) [order_details]))
                  | None \<Rightarrow> handle_with_gpt co c1 ''order_status'')
         else handle_with_gpt co c ''order_status'')"

definition handle_tracking_request ::
  "collaborators \<Rightarrow> session_context \<Rightarrow> string \<Rightarrow> session_context \<times> response" where
  "handle_tracking_request co c oid =
     (case get_order_info co oid of
        None \<Rightarrow> handle_with_gpt co c ''order_status''
      | Some order_details \<Rightarrow>
          (c, (reply (tracking_reply co order_details) (Some ''order_tracking''))
                \<lparr> display_type := Some ''tracking_details'' \<rparr>))"

text \<open>The two shortcuts at the head of \<open>_handle_order_status\<close>; \<open>None\<close> when neither returns.\<close>

definition order_status_action ::
  "collaborators \<Rightarrow> session_context \<Rightarrow> string \<Rightarrow> entities
     \<Rightarrow> (session_context \<times> response) option" where
  "order_status_action co c user_message ents =
     (let user_message_lower = str_lower user_message
      in if any_in [''track'', ''warranty'', ''cancel'', ''return''] user_message_lower
         then (case search_order_id False user_message of
                 Some g \<Rightarrow>
                   (if contains ''track'' user_message_lower
                    then Some (handle_tracking_request co c (str_upper g))
                    else if contains ''warranty'' user_message_lower
                    then Some (handle_transaction_intent co c WarrantyClaim ents)
                    else if contains ''cancel'' user_message_lower
                    then Some (handle_transaction_intent co c CancellationRequest ents)
                    else if contains ''return'' user_message_lower
                    then Some (handle_transaction_intent co c ReturnRequest ents)
                    else None)
               | None \<Rightarrow> None)
         else None)"

definition order_status_tracking ::
  "collaborators \<Rightarrow> session_context \<Rightarrow> string \<Rightarrow> (session_context \<times> response) option" where
  "order_status_tracking co c user_message =
     (if starts_with ''Track order '' user_message
         \<or> (contains ''track'' (str_lower user_message) \<and> contains ''ORD-'' user_message)
      then (case search_order_id False user_message of
              Some g \<Rightarrow> Some (handle_tracking_request co c (str_upper g))
            | None \<Rightarrow> None)
      else None)"

definition handle_order_status ::
  "collaborators \<Rightarrow> session_context \<Rightarrow> string \<Rightarrow> string \<Rightarrow> entities
     \<Rightarrow> session_context \<times> response" where
  "handle_order_status co c user_message intent_label ents =
     (case order_status_action co c user_message ents of
        Some r \<Rightarrow> r
      | None \<Rightarrow>
          (case order_status_tracking co c user_message of
             Some r \<Rightarrow> r
           | None \<Rightarrow>
               (if truthy (ents ''order_id'')
                then (case get_order_info co (get_or (ents ''order_id'') []) of
                        Some order_details \<Rightarrow>
                          (c, order_grid (''Here are the details for your order ''
                                          @ get_or (ents ''order_id'') [] @ '':'')
                                (Some intent_label) [order_details])
                      | None \<Rightarrow> handle_with_gpt co c ''order_status'')
                else if user_orders co \<noteq> []
                then (c, order_grid ''Here are your recent orders:'' (Some intent_label)
                           (user_orders co))
                else handle_with_gpt co c ''order_status'')))"

definition reason_mapping :: "(string \<times> string) list" where
  "reason_mapping =
     [(''fault'', ''Faulty/Defective''), (''faulty'', ''Faulty/Defective''),
      (''defective'', ''Faulty/Defective''), (''broken'', ''Faulty/Defective''),
      (''not working'', ''Faulty/Defective''), (''damaged'', ''Faulty/Defective''),
      (''wrong'', ''Wrong item received''), (''incorrect'', ''Wrong item received''),
      (''different'', ''Wrong item received''), (''not as described'', ''Item not as described''),
      (''description'', ''Item not as described''), (''changed mind'', ''No longer needed''),
      (''dont need'', ''No longer needed''), (''no need'', ''No longer needed''),
      (''other'', ''Other'')]"

definition map_reason_response :: "string \<Rightarrow> string list \<Rightarrow> string" where
  "map_reason_response user_reason valid_reasons =
     (let user_reason_lower = strip (str_lower user_reason)
      in case find (\<lambda>(keyword, mapped_reason).
                      contains keyword user_reason_lower \<and> mapped_reason \<in> set valid_reasons)
                reason_mapping of
           Some (keyword, mapped_reason) \<Rightarrow> mapped_reason
         | None \<Rightarrow>
             (case find (\<lambda>valid_reason.
                           any_in (split_words (str_lower valid_reason)) user_reason_lower)
                     valid_reasons of
                Some valid_reason \<Rightarrow> valid_reason
              | None \<Rightarrow> ''Other''))"

definition handle_reason_response ::
  "collaborators \<Rightarrow> session_context \<Rightarrow> string \<Rightarrow> entities \<Rightarrow> session_context \<times> response" where
  "handle_reason_response co c user_message ents =
     (case current_order c of
        None \<Rightarrow> handle_with_gpt co c ''unknown''
      | Some order_details \<Rightarrow>
          (let user_reason = (if truthy (ents ''reason'') then get_or (ents ''reason'') []
                              else strip user_message);
               reason = map_reason_response user_reason (get_reasons (transaction_type c))
           in (c\<lparr> transaction_reason := Some reason, awaiting_reason := Some False,
                  awaiting_confirmation := Some True \<rparr>,
               generate_response (request_name (transaction_type c))
                 (confirmation_reply co (transaction_type c) order_details reason))))"

definition reset_transaction_context :: "session_context \<Rightarrow> session_context" where
  "reset_transaction_context c =
     c\<lparr> awaiting_confirmation := None, transaction_type := None, transaction_reason := None,
        current_order := None, current_order_id := None, awaiting_reason := None,
        awaiting_order_id := None, awaiting_warranty_confirmation := None \<rparr>"

definition confirmation_words :: "string list" where
  "confirmation_words =
     [''yes'', ''confirm'', ''proceed'', ''ok'', ''okay'', ''yeah'', ''yep'', ''sure'']"

definition commit_message :: "collaborators \<Rightarrow> transaction_kind \<Rightarrow> order_info \<Rightarrow> string \<Rightarrow> string" where
  "commit_message co k order_details tid =
     (let amount = yen_sign @ format_amount co (order_price order_details)
      in case k of
           Cancellation \<Rightarrow>
             check_mark @ '' Cancellation processed! Refund of '' @ amount
             @ '' will be processed within 5-7 business days. Reference: '' @ tid
         | Return \<Rightarrow>
             check_mark @ '' Return approved! Refund of '' @ amount
             @ '' will be processed after we receive the item. Reference: '' @ tid
         | Warranty \<Rightarrow>
             check_mark @ '' Warranty claim submitted! Our team will contact you within ''
             @ ''24 hours. Reference: '' @ tid)"

text \<open>
  \<open>_handle_transaction_confirmation\<close>: the context, the reply (\<open>None\<close> when the handler
  raises, which it does on a missing transaction type) and the record committed, if any.
\<close>

definition handle_transaction_confirmation ::
  "collaborators \<Rightarrow> session_context \<Rightarrow> user \<Rightarrow> string
     \<Rightarrow> session_context \<times> response option \<times> transaction option" where
  "handle_transaction_confirmation co c u user_message =
     (case current_order c of
        None \<Rightarrow>
          (case handle_with_gpt co (reset_transaction_context c) ''unknown'' of
             (c', r) \<Rightarrow> (c', Some r, None))
      | Some order_details \<Rightarrow>
          (if \<not> truthy (transaction_reason c)
           then (case handle_with_gpt co (reset_transaction_context c) ''unknown'' of
                   (c', r) \<Rightarrow> (c', Some r, None))
           else if any_in confirmation_words (str_lower user_message)
           then (case transaction_type c of
                   None \<Rightarrow> (c, None, None)
                 | Some k \<Rightarrow>
                     (let t = log_transaction co k u order_details
                                (get_or (transaction_reason c) [])
                      in (reset_transaction_context c,
                          Some (generate_response (request_name (Some k))
                                  (commit_message co k order_details (transaction_id t))),
                          Some t)))
           else (case transaction_type c of
                   None \<Rightarrow> (reset_transaction_context c, None, None)
                 | Some k \<Rightarrow>
                     (case handle_with_gpt co (reset_transaction_context c)
                             (request_name (Some k)) of
                        (c', r) \<Rightarrow> (c', Some r, None)))))"

definition product_grid :: "string \<Rightarrow> string \<Rightarrow> product list \<Rightarrow> response" where
  "product_grid t intent_label ps =
     (reply t (Some intent_label)) \<lparr> resp_products := ps, display_type := Some ''product_grid'' \<rparr>"

definition handle_no_products_with_gpt :: "string \<Rightarrow> string \<Rightarrow> response" where
  "handle_no_products_with_gpt search_query intent_label =
     (let query_lower = str_lower search_query
      in reply
           (if any_in [''gaming'', ''game'', ''gamer''] query_lower
            then ''Looking for a gaming laptop? Great choice! Could you tell me your budget ''
                 @ ''range and any specific features you'' @ [CHR 0x27]
                 @ ''d like, like graphics card or screen size?''
            else if any_in [''business'', ''work'', ''office''] query_lower
            then ''For business use, I recommend looking at reliable brands with good battery ''
                 @ ''life. What'' @ [CHR 0x27] @ ''s your budget and do you need specific ''
                 @ ''features like lightweight design or long battery life?''
            else if any_in [''student'', ''school'', ''college''] query_lower
            then ''Perfect for student life! What'' @ [CHR 0x27] @ ''s your budget range? ''
                 @ ''Student laptops usually offer great value with good performance for ''
                 @ ''studying and entertainment.''
            else if any_in [''budget'', ''cheap'', ''affordable'', ''price''] query_lower
            then ''Looking for a great value laptop? I can help! What'' @ [CHR 0x27]
                 @ ''s your maximum budget and what will you mainly use it for?''
            else ''I'' @ [CHR 0x27] @ ''d love to help you find the perfect laptop! Could you ''
                 @ ''tell me more about what you'' @ [CHR 0x27] @ ''re looking for? For example:''
                 @ [newline] @ bullet @ '' Your budget range''
                 @ [newline] @ bullet @ '' Preferred brand''
                 @ [newline] @ bullet @ '' What you'' @ [CHR 0x27] @ ''ll use it for''
                 @ [newline] @ bullet @ '' Any specific features you need'')
           (Some intent_label))"

text \<open>The budget constraint \<open>_handle_purchase_flow\<close> takes from the entities.\<close>

definition budget_constraints_of :: "entities \<Rightarrow> constraints option" where
  "budget_constraints_of ents =
     (case ents ''max_price'' of
        Some budget_text \<Rightarrow> parse_budget_constraints budget_text
      | None \<Rightarrow> None)"

definition handle_purchase_flow ::
  "collaborators \<Rightarrow> session_context \<Rightarrow> string \<Rightarrow> entities \<Rightarrow> session_context \<times> response" where
  "handle_purchase_flow co c intent_label ents =
     (let search_query = search_query_reply co;
          c1 = c\<lparr> last_search_query := Some search_query \<rparr>;
          budget_constraints = budget_constraints_of ents
      in case get_product_recommendations (search_products co) (query_by_brand co)
                search_query budget_constraints of
           Some recs \<Rightarrow>
             (if rec_products recs \<noteq> []
              then (c1\<lparr> current_products := Some (rec_products recs) \<rparr>,
                    product_grid (product_reply co (rec_products recs)) intent_label
                      (rec_products recs))
              else (c1, handle_no_products_with_gpt search_query intent_label))
         | None \<Rightarrow> (c1, handle_no_products_with_gpt search_query intent_label))"

definition handle_color_inquiry ::
  "collaborators \<Rightarrow> session_context \<Rightarrow> string \<Rightarrow> session_context \<times> response" where
  "handle_color_inquiry co c intent_label =
     (if \<not> has_products c then handle_with_gpt co c intent_label
      else (c, product_grid (color_reply co (case current_products c of Some ps \<Rightarrow> ps | None \<Rightarrow> []))
                 intent_label (case current_products c of Some ps \<Rightarrow> ps | None \<Rightarrow> [])))"

text \<open>
  \<open>_handle_comparison_request\<close>: the comparison the collaborators produce from two or
  more products found, else a reply through \<open>_handle_with_gpt\<close>.
\<close>

definition handle_comparison_request ::
  "collaborators \<Rightarrow> session_context \<Rightarrow> string \<Rightarrow> session_context \<times> response" where
  "handle_comparison_request co c intent_label =
     (case comparison_result co of
        Some (comparison_text, products_to_compare) \<Rightarrow>
          (c, (reply comparison_text (Some ''product_comparison''))
                \<lparr> resp_products := products_to_compare,
                  display_type := Some ''comparison_view'' \<rparr>)
      | None \<Rightarrow> handle_with_gpt co c intent_label)"

section \<open>Escalation Policy\<close>

definition offer_escalation :: "dialogue_manager \<Rightarrow> dialogue_manager \<times> response" where
  "offer_escalation dm =
     (dm\<lparr> escalation_offered := True \<rparr>,
      (reply (''I'' @ [CHR 0x27] @ ''ve been helping you for a while. Would you like to speak ''
              @ ''with a human agent for more personalized assistance?'')
         (Some ''escalation_offer'')) \<lparr> offers_escalation := True \<rparr>)"

definition escalation_accept_words :: "string list" where
  "escalation_accept_words =
     [''yes'', ''yeah'', ''yep'', ''sure'', ''ok'', ''okay'', ''connect'', ''agent'', ''human'']"

text \<open>
  \<open>_handle_escalation_response\<close>. On an affirmative reply it calls \<open>escalate_to_agent\<close> on
  the escalation service; the class \<open>EscalationService\<close> defines no such method, so the
  call raises \<open>AttributeError\<close>, which nothing in \<open>handle_message\<close> catches. The reply
  \<open>None\<close> is that exception.
\<close>

definition handle_escalation_response ::
  "collaborators \<Rightarrow> dialogue_manager \<Rightarrow> string \<Rightarrow> dialogue_manager \<times> response option" where
  "handle_escalation_response co dm user_message =
     (if any_in escalation_accept_words (str_lower user_message)
      then (dm\<lparr> escalation_pending := False,
                handoff_attempts := Suc (handoff_attempts dm) \<rparr>, None)
      else (case handle_with_gpt co (dm_context dm) ''general_question'' of
              (c', r) \<Rightarrow> (dm\<lparr> escalation_pending := False, dm_context := c' \<rparr>, Some r)))"

section \<open>Dialogue Router\<close>

definition main_menu_commands :: "string list" where
  "main_menu_commands =
     [''main menu'', ''menu'', ''home'',
      [CHR 0xE3, CHR 0x83, CHR 0x9B, CHR 0xE3, CHR 0x83, CHR 0xBC, CHR 0xE3, CHR 0x83, CHR 0xA0],
      [CHR 0xE3, CHR 0x83, CHR 0xA1, CHR 0xE3, CHR 0x82, CHR 0xA4, CHR 0xE3, CHR 0x83, CHR 0xB3,
       CHR 0xE3, CHR 0x83, CHR 0xA1, CHR 0xE3, CHR 0x83, CHR 0x8B, CHR 0xE3, CHR 0x83, CHR 0xA5,
       CHR 0xE3, CHR 0x83, CHR 0xBC]]"

text \<open>
  \<open>_handle_main_menu\<close>: the context keeps the user data held by the manager and nothing
  else; the escalation counters are reset.
\<close>

definition handle_main_menu :: "dialogue_manager \<Rightarrow> dialogue_manager \<times> response" where
  "handle_main_menu dm =
     (dm\<lparr> dm_context := empty_context\<lparr> ctx_user_data := Some (user_data dm) \<rparr>,
          response_count := 0, escalation_offered := False, escalation_pending := False \<rparr>,
      (reply ([CHR 0xF0, CHR 0x9F, CHR 0x8F, CHR 0xA0] @ '' Main Menu - How can I help you today?'')
         (Some ''main_menu'')) \<lparr> reset_context := True \<rparr>)"

definition purchase_keywords :: "string list" where
  "purchase_keywords = [''laptop'', ''buy'', ''purchase'', ''computer'']"

definition color_words :: "string list" where
  "color_words = [''color'', ''colour'', ''blue'', ''red'', ''black'', ''silver'', ''gray'', ''white'']"

definition comparison_words :: "string list" where
  "comparison_words = [''compare'', ''comparison'', ''vs'', ''versus'', ''difference between'']"

text \<open>
  The two clean-up conditionals of \<open>handle_message\<close> that follow the merge of the
  entities: the switch from the purchase flow on an order-status intent, then the removal
  of the purchase keys when the purchase flow is not on.
\<close>

definition clear_purchase_context :: "session_context \<Rightarrow> string \<Rightarrow> string \<Rightarrow> session_context" where
  "clear_purchase_context c intent_label user_message =
     (let c1 = (if intent_label = ''order_status'' \<and> is_set (in_purchase_flow c)
                then clear_keys False (c\<lparr> in_purchase_flow := Some False \<rparr>)
                else c)
      in if intent_label \<noteq> ''product_inquiry'' \<and> \<not> is_set (in_purchase_flow c1)
            \<and> \<not> any_in purchase_keywords (str_lower user_message)
         then clear_keys True c1
         else c1)"

definition transaction_intent_of :: "string \<Rightarrow> transaction_intent option" where
  "transaction_intent_of intent_label =
     (if intent_label = ''return_request'' then Some ReturnRequest
      else if intent_label = ''cancellation_request'' then Some CancellationRequest
      else if intent_label = ''warranty_claim'' then Some WarrantyClaim
      else None)"

definition no_commit ::
  "session_context \<times> response \<Rightarrow> session_context \<times> response option \<times> transaction option" where
  "no_commit cr = (fst cr, Some (snd cr), None)"

text \<open>
  The dispatch chain of \<open>handle_message\<close>: the context, the reply (\<open>None\<close> when the handler
  raised) and the record committed, if any.
\<close>

definition dispatch ::
  "collaborators \<Rightarrow> session_context \<Rightarrow> user \<Rightarrow> string \<Rightarrow> string \<Rightarrow> entities
     \<Rightarrow> session_context \<times> response option \<times> transaction option" where
  "dispatch co c u user_message intent_label ents =
     (if any_in comparison_words (str_lower user_message)
      then no_commit (handle_comparison_request co c intent_label)
      else if has_products c \<and> any_in color_words (str_lower user_message)
      then no_commit (handle_color_inquiry co c intent_label)
      else if intent_label = ''product_inquiry'' \<or> is_set (in_purchase_flow c)
              \<or> any_in purchase_keywords (str_lower user_message)
      then no_commit (handle_purchase_flow co (c\<lparr> in_purchase_flow := Some True \<rparr>)
                        intent_label ents)
      else if is_set (awaiting_confirmation c)
      then handle_transaction_confirmation co c u user_message
      else if is_set (awaiting_reason c)
      then no_commit (handle_reason_response co c user_message ents)
      else if is_set (awaiting_order_id c)
      then no_commit (handle_order_id_response co c user_message intent_label ents)
      else if is_set (awaiting_warranty_confirmation c)
      then no_commit (handle_warranty_confirmation co c user_message)
      else (case transaction_intent_of intent_label of
              Some ti \<Rightarrow> no_commit (handle_transaction_intent co c ti ents)
            | None \<Rightarrow>
                (if intent_label = ''order_status''
                 then no_commit (handle_order_status co c user_message intent_label ents)
                 else no_commit (handle_with_gpt co c intent_label))))"

text \<open>
  How the \<open>try\<close> block of \<open>handle_message\<close> ends: a \<open>return\<close> inside it, its normal end
  with a reply assigned, or an exception.
\<close>

datatype outcome = Returned response | Completed response | Raised

definition try_block ::
  "collaborators \<Rightarrow> session_context \<Rightarrow> user \<Rightarrow> string
     \<Rightarrow> session_context \<times> transaction option \<times> outcome" where
  "try_block co c u user_message =
     (if is_warranty_policy_inquiry user_message
      then (case handle_warranty_policy_inquiry co c of (c', r) \<Rightarrow> (c', None, Returned r))
      else (case handle_context_switching co c user_message of
              (c', Some r) \<Rightarrow> (c', None, Returned r)
            | (c', None) \<Rightarrow>
                (if should_use_gpt_directly user_message
                 then (case handle_with_gpt co c' ''general_question'' of
                         (c'', r) \<Rightarrow> (c'', None, Returned r))
                 else (case understand_with_gpt co user_message of
                         (intent_label, ents) \<Rightarrow>
                           (let c1 = c'\<lparr> merged_entities := merged_entities c' ++ ents \<rparr>;
                                c2 = clear_purchase_context c1 intent_label user_message
                            in case dispatch co c2 u user_message intent_label ents of
                                 (c3, Some r, t) \<Rightarrow> (c3, t, Completed r)
                               | (c3, None, t) \<Rightarrow> (c3, t, Raised))))))"

definition commit :: "transaction option \<Rightarrow> transaction list \<Rightarrow> transaction list" where
  "commit t entries = (case t of Some x \<Rightarrow> entries @ [x] | None \<Rightarrow> entries)"

text \<open>
  \<open>handle_message\<close>. The manager is the one instance that serves every session; \<open>u\<close> and
  \<open>initial_context\<close> are the user and the stored context of the session the message
  belongs to. The reply \<open>None\<close> is an exception that leaves the call. The conversation log
  of the database is not modelled; the context the caller stores after the call is
  \<open>dm_context\<close> of the manager returned.
\<close>

definition handle_message ::
  "dialogue_manager \<Rightarrow> collaborators \<Rightarrow> string \<Rightarrow> user \<Rightarrow> session_context
     \<Rightarrow> dialogue_manager \<times> response option" where
  "handle_message dm co user_message u initial_context =
     (if str_lower user_message \<in> set main_menu_commands
      then (case handle_main_menu dm of (dm', r) \<Rightarrow> (dm', Some r))
      else let dm1 = dm\<lparr> dm_context := (if ctx_user_data initial_context = None
                                         then initial_context\<lparr> ctx_user_data := Some u \<rparr>
                                         else initial_context),
                         user_data := u,
                         conversation_history :=
                           conversation_history dm @ [(''user'', user_message)] \<rparr>
           in if escalation_pending dm1 then handle_escalation_response co dm1 user_message
              else let dm2 = dm1\<lparr> response_count := Suc (response_count dm1) \<rparr>
                   in if 4 \<le> response_count dm2 \<and> \<not> escalation_offered dm2
                      then (case offer_escalation dm2 of (dm', r) \<Rightarrow> (dm', Some r))
                      else (case try_block co (dm_context dm2) u user_message of
                              (c, t, Returned r) \<Rightarrow>
                                (dm2\<lparr> dm_context := c,
                                      transaction_log := commit t (transaction_log dm2) \<rparr>,
                                 Some r)
                            | (c, t, Completed r) \<Rightarrow>
                                (dm2\<lparr> dm_context := c,
                                      transaction_log := commit t (transaction_log dm2),
                                      conversation_history :=
                                        conversation_history dm2
                                        @ [(''assistant'', response_text r)] \<rparr>, Some r)
                            | (c, t, Raised) \<Rightarrow>
                                (dm2\<lparr> dm_context := c,
                                      transaction_log := commit t (transaction_log dm2) \<rparr>,
                                 Some (handle_with_gpt_fallback co))))"

section \<open>The session loop\<close>

text \<open>
  The loop of the transport layer for one session: each message is stripped, an empty
  one is skipped, the context stored after the previous message is handed to
  \<open>handle_message\<close>, and the loop ends on an escalated reply, or on an exception, which is
  answered with a fixed apology. Every message comes with the collaborators' answers for
  it.
\<close>

definition technical_difficulties :: response where
  "technical_difficulties =
     reply (''I apologize, I'' @ [CHR 0x27] @ ''m experiencing technical difficulties. ''
            @ ''Please try again later.'') None"

fun session_loop ::
  "user \<Rightarrow> dialogue_manager \<Rightarrow> session_context \<Rightarrow> (collaborators \<times> string) list
     \<Rightarrow> dialogue_manager \<times> response list" where
  "session_loop u dm stored [] = (dm, [])"
| "session_loop u dm stored ((co, content) # rest) =
     (if strip content = [] then session_loop u dm stored rest
      else (case handle_message dm co (strip content) u stored of
              (dm', None) \<Rightarrow> (dm', [technical_difficulties])
            | (dm', Some r) \<Rightarrow>
                (if escalated r then (dm', [r])
                 else (case session_loop u dm' (dm_context dm') rest of
                         (dm'', rs) \<Rightarrow> (dm'', r # rs)))))"

definition run_session ::
  "user \<Rightarrow> dialogue_manager \<Rightarrow> (collaborators \<times> string) list
     \<Rightarrow> dialogue_manager \<times> response list" where
  "run_session u dm messages =
     session_loop u dm (empty_context\<lparr> ctx_user_data := Some u \<rparr>) messages"

section \<open>Turns\<close>

text \<open>
  Names for what \<open>handle_message\<close> leaves after a message that goes through its \<open>try\<close>
  block: the reply, the lines added to the conversation history, and the manager.
\<close>

definition finish :: "collaborators \<Rightarrow> outcome \<Rightarrow> response" where
  "finish co oc =
     (case oc of Returned r \<Rightarrow> r | Completed r \<Rightarrow> r | Raised \<Rightarrow> handle_with_gpt_fallback co)"

definition said :: "string \<Rightarrow> outcome \<Rightarrow> (string \<times> string) list" where
  "said m oc =
     (''user'', m) # (case oc of Completed r \<Rightarrow> [(''assistant'', response_text r)]
                      | Returned r \<Rightarrow> [] | Raised \<Rightarrow> [])"

definition after_turn ::
  "dialogue_manager \<Rightarrow> user \<Rightarrow> string \<Rightarrow> session_context \<Rightarrow> transaction option \<Rightarrow> outcome
     \<Rightarrow> dialogue_manager" where
  "after_turn dm u m c t oc =
     dm\<lparr> dm_context := c, user_data := u,
         conversation_history := conversation_history dm @ said m oc,
         response_count := Suc (response_count dm),
         transaction_log := commit t (transaction_log dm) \<rparr>"

text \<open>The manager after the message that is answered by the escalation offer.\<close>

definition after_offer ::
  "dialogue_manager \<Rightarrow> user \<Rightarrow> string \<Rightarrow> session_context \<Rightarrow> dialogue_manager" where
  "after_offer dm u m c =
     dm\<lparr> dm_context := c, user_data := u,
         conversation_history := conversation_history dm @ [(''user'', m)],
         response_count := Suc (response_count dm), escalation_offered := True \<rparr>"

section \<open>Stated properties\<close>

text \<open>The four waiting flags of the context.\<close>

definition waiting_flags ::
  "session_context \<Rightarrow> bool option \<times> bool option \<times> bool option \<times> bool option" where
  "waiting_flags c = (awaiting_confirmation c, awaiting_reason c, awaiting_order_id c,
                      awaiting_warranty_confirmation c)"

text \<open>The number of waiting states that are on: the four flags and the pending escalation.\<close>

definition waiting_states :: "session_context \<Rightarrow> bool \<Rightarrow> nat" where
  "waiting_states c pending =
     length (filter id [is_set (awaiting_confirmation c), is_set (awaiting_reason c),
                        is_set (awaiting_order_id c),
                        is_set (awaiting_warranty_confirmation c), pending])"

text \<open>Every transaction key is absent from the context.\<close>

definition transaction_fields_cleared :: "session_context \<Rightarrow> bool" where
  "transaction_fields_cleared c =
     (awaiting_confirmation c = None \<and> awaiting_reason c = None \<and> awaiting_order_id c = None \<and>
      awaiting_warranty_confirmation c = None \<and> transaction_type c = None \<and>
      transaction_reason c = None \<and> current_order c = None \<and> current_order_id c = None)"

text \<open>The transaction in flight: its type, the order snapshot, the order id, the reason.\<close>

definition transaction_snapshot ::
  "session_context
     \<Rightarrow> transaction_kind option \<times> order_info option \<times> string option \<times> string option" where
  "transaction_snapshot c =
     (transaction_type c, current_order c, current_order_id c, transaction_reason c)"

text \<open>Every purchase key is absent from the context.\<close>

definition purchase_keys_cleared :: "session_context \<Rightarrow> bool" where
  "purchase_keys_cleared c =
     (current_products c = None \<and> last_search_query c = None \<and> in_purchase_flow c = None)"

text \<open>\<open>occurs w s\<close>: the word \<open>w\<close> is a contiguous part of \<open>s\<close>.\<close>

definition occurs :: "string \<Rightarrow> string \<Rightarrow> bool" where
  "occurs w s = (\<exists>before after. s = before @ w @ after)"



section \<open>Concrete inputs\<close>

definition alice :: user where
  "alice = User ''u1'' ''alice''"

text \<open>
  Collaborators that understand nothing (so the intent is \<open>general_question\<close>), find no
  product and know no stored order (so the demonstration orders answer).
\<close>

definition demo :: collaborators where
  "demo =
     \<lparr> gpt_understanding = None, chat_reply = Some ''chat'', fallback_reply = ''fallback'',
       order_reply = (\<lambda>x. ''order''), order_id_request_reply = (\<lambda>x. ''which order?''),
       reason_request_reply = (\<lambda>x. ''why?''), confirmation_reply = (\<lambda>x y z. ''confirm?''),
       tracking_reply = (\<lambda>x. ''tracking''), search_query_reply = ''laptop'',
       product_reply = (\<lambda>x. ''products''), color_reply = (\<lambda>x. ''colors''),
       comparison_result = None, search_products = (\<lambda>x. []), query_by_brand = (\<lambda>x. []),
       get_order_by_id = (\<lambda>x. None), user_orders = [],
       inr_price_text = (\<lambda>x. ''0''), uuid4 = ''1b4e28ba-2fa1-11d2-883f-0016d3cca427'', policy_text = ''policy'',
       format_amount = (\<lambda>x. ''0'') \<rparr>"

definition order_1001 :: order_info where
  "order_1001 =
     \<lparr> order_id = ''ORD-1001'', product_name = ''HP Pavilion Gaming Laptop'',
       order_price = 149833, status = ''Delivered'', order_date = ''2023-10-15'',
       delivery_date = ''2023-10-20'', carrier = ''BlueDart'',
       tracking_number = ''700000000001'', currency = Some ''JPY'' \<rparr>"

definition order_1005 :: order_info where
  "order_1005 =
     \<lparr> order_id = ''ORD-1005'', product_name = ''APPLE 2020 Macbook Air M1'',
       order_price = 241638, status = ''Confirmed'', order_date = ''2025-09-04'',
       delivery_date = ''2025-09-11'', carrier = ''FedEx'',
       tracking_number = ''700000000005'', currency = Some ''JPY'' \<rparr>"

text \<open>The context the transport layer stores when a session opens.\<close>

definition ctx0 :: session_context where
  "ctx0 = empty_context\<lparr> ctx_user_data := Some alice \<rparr>"

text \<open>A context at the confirmation step of a return of order ORD-1001.\<close>

definition ctx_confirm :: session_context where
  "ctx_confirm =
     ctx0\<lparr> awaiting_confirmation := Some True, awaiting_reason := Some False,
           transaction_type := Some Return, transaction_reason := Some ''Other'',
           current_order := Some order_1001, current_order_id := Some ''ORD-1001'' \<rparr>"

text \<open>A manager in the middle of that transaction, after two messages of the session.\<close>

definition dm_confirm :: dialogue_manager where
  "dm_confirm =
     initial_manager\<lparr> dm_context := ctx_confirm, user_data := alice, response_count := 2 \<rparr>"


text \<open>The message \<open>no, don't proceed\<close>.\<close>

definition no_dont_proceed :: string where
  "no_dont_proceed = ''no, don'' @ [CHR 0x27] @ ''t proceed''"

text \<open>The contexts of a warranty claim: order id awaited, policy shown, policy declined.\<close>

definition ctx_order_id_awaited :: session_context where
  "ctx_order_id_awaited =
     ctx0\<lparr> awaiting_order_id := Some True, transaction_type := Some Warranty \<rparr>"

definition ctx_policy_shown :: session_context where
  "ctx_policy_shown =
     ctx0\<lparr> awaiting_order_id := Some False, transaction_type := Some Warranty,
           current_order_id := Some ''ORD-1001'', current_order := Some order_1001,
           awaiting_warranty_confirmation := Some True,
           merged_entities := [''order_id'' \<mapsto> ''ORD-1001''] \<rparr>"

definition ctx_declined :: session_context where
  "ctx_declined = ctx_policy_shown\<lparr> awaiting_warranty_confirmation := Some False \<rparr>"

text \<open>A candidate priced 42000 INR, that is 70000 JPY at the fixed rate.\<close>

definition candidate_70000 :: match where
  "candidate_70000 =
     \<lparr> match_id = ''p1'', score = 9 / 10, md_name = Some ''A'', md_brand = Some ''HP'',
       md_price = Some 42000, md_rating = Some 4, md_colors = None \<rparr>"

text \<open>
  Collaborators whose understanding call answers a product inquiry with the budget
  entity \<open>nan\<close>, and whose search finds the candidate above.
\<close>

definition shop_nan :: collaborators where
  "shop_nan =
     demo\<lparr> gpt_understanding := Some (''product_inquiry'', [''max_price'' \<mapsto> ''nan'']),
           search_products := (\<lambda>q. [candidate_70000]) \<rparr>"



section \<open>Facts about texts\<close>

lemma starts_with_iff: "starts_with p s \<longleftrightarrow> (\<exists>after. s = p @ after)"
  by (induction p s rule: starts_with.induct) auto

lemma contains_iff_occurs: "contains w s \<longleftrightarrow> occurs w s"
proof (induction s)
  case Nil
  then show ?case by (simp add: occurs_def)
next
  case (Cons c cs)
  have "occurs w (c # cs) \<longleftrightarrow> (\<exists>after. c # cs = w @ after) \<or> occurs w cs"
    unfolding occurs_def
  proof
    assume "\<exists>before after. c # cs = before @ w @ after"
    then obtain before after where e: "c # cs = before @ w @ after" by blast
    show "(\<exists>after. c # cs = w @ after) \<or> (\<exists>before after. cs = before @ w @ after)"
    proof (cases before)
      case Nil
      with e show ?thesis by auto
    next
      case (Cons b bs)
      with e have "cs = bs @ w @ after" by simp
      then show ?thesis by blast
    qed
  next
    assume "(\<exists>after. c # cs = w @ after) \<or> (\<exists>before after. cs = before @ w @ after)"
    then show "\<exists>before after. c # cs = before @ w @ after"
    proof
      assume "\<exists>after. c # cs = w @ after"
      then obtain after where "c # cs = [] @ w @ after" by auto
      then show ?thesis by blast
    next
      assume "\<exists>before after. cs = before @ w @ after"
      then obtain before after where "c # cs = (c # before) @ w @ after" by auto
      then show ?thesis by blast
    qed
  qed
  with Cons show ?case by (simp add: starts_with_iff)
qed

lemma any_in_iff: "any_in ws s \<longleftrightarrow> (\<exists>w\<in>set ws. occurs w s)"
  by (simp add: any_in_def list_ex_iff contains_iff_occurs)


section \<open>Facts about the handlers\<close>

lemma handle_with_gpt_flags [simp]:
  "waiting_flags (fst (handle_with_gpt co c i)) = waiting_flags c"
  by (simp add: handle_with_gpt_def waiting_flags_def clear_keys_def Let_def)

lemma handle_with_gpt_snapshot [simp]:
  "transaction_snapshot (fst (handle_with_gpt co c i)) = transaction_snapshot c"
  by (simp add: handle_with_gpt_def transaction_snapshot_def clear_keys_def Let_def)

lemma handle_with_gpt_purchase_keys [simp]:
  "purchase_keys_cleared c \<Longrightarrow> purchase_keys_cleared (fst (handle_with_gpt co c i))"
  by (simp add: handle_with_gpt_def purchase_keys_cleared_def clear_keys_def Let_def)

lemma handle_with_gpt_keeps_cleared [simp]:
  "transaction_fields_cleared c \<Longrightarrow> transaction_fields_cleared (fst (handle_with_gpt co c i))"
  by (simp add: handle_with_gpt_def transaction_fields_cleared_def clear_keys_def Let_def)

lemma handle_with_gpt_not_escalated [simp]:
  "\<not> escalated (snd (handle_with_gpt co c i))"
  by (simp add: handle_with_gpt_def reply_def handle_with_gpt_fallback_def split: option.splits)

lemma reset_cleared [simp]: "transaction_fields_cleared (reset_transaction_context c)"
  by (simp add: transaction_fields_cleared_def reset_transaction_context_def)

lemma clear_purchase_context_flags [simp]:
  "waiting_flags (clear_purchase_context c i m) = waiting_flags c"
  by (simp add: clear_purchase_context_def clear_keys_def waiting_flags_def Let_def)

lemma clear_purchase_context_snapshot [simp]:
  "transaction_snapshot (clear_purchase_context c i m) = transaction_snapshot c"
  by (simp add: clear_purchase_context_def clear_keys_def transaction_snapshot_def Let_def)

lemma context_switching_none:
  "handle_context_switching co c m = (c', None) \<Longrightarrow> c' = c"
  by (auto simp: handle_context_switching_def Let_def split: if_splits option.splits prod.splits)

section \<open>Facts about the concrete inputs\<close>

lemma round_1001: "py_round (89900 / yen_to_inr_rate) = 149833"
proof -
  have "\<lfloor>(449500 / 3 :: rat)\<rfloor> = 149833" by (simp add: floor_eq_iff)
  then show ?thesis by (simp add: py_round_def yen_to_inr_rate_def Let_def)
qed

lemma round_1005: "py_round (144983 / yen_to_inr_rate) = 241638"
proof -
  have "\<lfloor>(724915 / 3 :: rat)\<rfloor> = 241638" by (simp add: floor_eq_iff)
  then show ?thesis by (simp add: py_round_def yen_to_inr_rate_def Let_def)
qed

lemma upper_1001: "str_upper ''ORD-1001'' = ''ORD-1001''"
  by (simp add: str_upper_def upper_char_def)

lemma upper_1005: "str_upper ''ORD-1005'' = ''ORD-1005''"
  by (simp add: str_upper_def upper_char_def)

lemma sample_1001: "get_sample_order_info ''ORD-1001'' = Some order_1001"
  unfolding get_sample_order_info_def Let_def upper_1001 sample_order_def round_1001
  by (simp add: order_1001_def)

lemma sample_1005: "get_sample_order_info ''ORD-1005'' = Some order_1005"
  unfolding get_sample_order_info_def Let_def upper_1005 sample_order_def round_1005
  by (simp add: order_1005_def)

lemma info_1001: "get_order_info demo ''ORD-1001'' = Some order_1001"
  by (simp add: get_order_info_def demo_def sample_1001)

lemma info_1005: "get_order_info demo ''ORD-1005'' = Some order_1005"
  by (simp add: get_order_info_def demo_def sample_1005)

lemma status_1001: "str_lower (status order_1001) = ''delivered''"
  by (simp add: order_1001_def str_lower_def lower_char_def)

lemma status_1005: "str_lower (status order_1005) = ''confirmed''"
  by (simp add: order_1005_def str_lower_def lower_char_def)

lemma flags_ctx0: "waiting_flags ctx0 = (None, None, None, None)"
  by (simp add: waiting_flags_def ctx0_def empty_context_def)

section \<open>Evaluating a session\<close>

lemma after_turn_simps [simp]:
  "dm_context (after_turn dm u m c t oc) = c"
  "user_data (after_turn dm u m c t oc) = u"
  "response_count (after_turn dm u m c t oc) = Suc (response_count dm)"
  "escalation_offered (after_turn dm u m c t oc) = escalation_offered dm"
  "escalation_pending (after_turn dm u m c t oc) = escalation_pending dm"
  "handoff_attempts (after_turn dm u m c t oc) = handoff_attempts dm"
  "transaction_log (after_turn dm u m c t oc) = commit t (transaction_log dm)"
  by (simp_all add: after_turn_def)

lemma finish_simps [simp]:
  "finish co (Returned r) = r" "finish co (Completed r) = r"
  by (simp_all add: finish_def)

lemma reply_simps [simp]:
  "\<not> escalated (reply t i)" "intent (reply t i) = i" "response_text (reply t i) = t"
  "\<not> escalated (policy_response co)" "intent (policy_response co) = Some ''warranty_policy''"
  by (simp_all add: reply_def policy_response_def)

lemma initial_manager_simps [simp]:
  "\<not> escalation_pending initial_manager" "response_count initial_manager = 0"
  "\<not> escalation_offered initial_manager" "handoff_attempts initial_manager = 0"
  "transaction_log initial_manager = []"
  by (simp_all add: initial_manager_def)

text \<open>A message that is no menu command, with no escalation pending or due.\<close>

lemma routed_step:
  assumes "str_lower m \<notin> set main_menu_commands"
      and "\<not> escalation_pending dm"
      and "response_count dm < 3 \<or> escalation_offered dm"
      and "ctx_user_data c \<noteq> None"
      and "try_block co c u m = (c', t, oc)"
  shows "handle_message dm co m u c = (after_turn dm u m c' t oc, Some (finish co oc))"
  using assms
  by (cases oc) (auto simp: handle_message_def Let_def finish_def said_def after_turn_def)

lemma session_loop_step:
  assumes "strip content = m" and "m \<noteq> []"
      and "handle_message dm co m u stored = (dm', Some r)" and "\<not> escalated r"
      and "dm_context dm' = stored'"
      and "session_loop u dm' stored' rest = (dm'', rs)"
  shows "session_loop u dm stored ((co, content) # rest) = (dm'', r # rs)"
  using assms by simp

lemma session_loop_last:
  assumes "strip content = m" and "m \<noteq> []"
      and "handle_message dm co m u stored = (dm', Some r)" and "\<not> escalated r"
  shows "session_loop u dm stored [(co, content)] = (dm', [r])"
  using assms by simp

lemmas ctx_defs = ctx0_def ctx_order_id_awaited_def ctx_policy_shown_def ctx_declined_def
  empty_context_def

lemma lower_file_claim: "str_lower ''file warranty claim'' = ''file warranty claim''"
  by (simp add: str_lower_def lower_char_def)

lemma lower_ord_1001: "str_lower ''ORD-1001'' = ''ord-1001''"
  by (simp add: str_lower_def lower_char_def)

lemma lower_no: "str_lower ''no'' = ''no''"
  by (simp add: str_lower_def lower_char_def)

lemma try_file_claim:
  "try_block demo ctx0 alice ''file warranty claim'' =
     (ctx_order_id_awaited, None, Returned (reply ''chat'' (Some ''warranty_claim'')))"
  unfolding try_block_def is_warranty_policy_inquiry_def handle_context_switching_def Let_def
    lower_file_claim
  by (simp add: any_in_def match_order_id_def str_lower_def lower_char_def demo_def ctx_defs
      clear_keys_def handle_with_gpt_def is_set_def)

lemma search_ord_1001: "search_order_id True ''ORD-1001'' = Some ''ORD-1001''"
  by (simp add: match_order_id_def str_lower_def lower_char_def is_digit_def)

lemma normalise_ord_1001: "normalise_order_id ''ORD-1001'' = ''ORD-1001''"
  by (simp add: normalise_order_id_def upper_1001)

lemma understand_ord_1001:
  "understand_with_gpt demo ''ORD-1001'' = (''order_status'', [''order_id'' \<mapsto> ''ORD-1001''])"
  unfolding understand_with_gpt_def search_ord_1001 by (simp add: normalise_ord_1001)

lemma try_ord_1001:
  "try_block demo ctx_order_id_awaited alice ''ORD-1001'' =
     (ctx_policy_shown, None, Completed (policy_response demo))"
  unfolding try_block_def is_warranty_policy_inquiry_def handle_context_switching_def Let_def
    lower_ord_1001 should_use_gpt_directly_def understand_ord_1001
  by (simp add: any_in_def newline_def ctx_defs clear_purchase_context_def is_set_def
      purchase_keywords_def clear_keys_def dispatch_def comparison_words_def color_words_def
      has_products_def handle_order_id_response_def no_commit_def truthy_def get_or_def
      info_1001 Let_def lower_ord_1001)

lemma try_no:
  "try_block demo ctx_policy_shown alice ''no'' =
     (ctx_declined, None, Completed (reply ''chat'' (Some ''general_question'')))"
  unfolding try_block_def is_warranty_policy_inquiry_def handle_context_switching_def Let_def
    lower_no should_use_gpt_directly_def understand_with_gpt_def
  by (simp add: any_in_def newline_def ctx_defs clear_purchase_context_def is_set_def
      purchase_keywords_def clear_keys_def dispatch_def comparison_words_def color_words_def
      has_products_def match_order_id_def brands_understanding_def demo_def lower_no
      handle_warranty_confirmation_def warranty_positive_responses_def handle_with_gpt_def
      no_commit_def Let_def)

lemma strip_claim_messages:
  "strip ''file warranty claim'' = ''file warranty claim''"
  "strip ''ORD-1001'' = ''ORD-1001''"
  "strip ''no'' = ''no''"
  by (simp_all add: strip_def is_space_def)

lemma claim_messages_not_menu:
  "''file warranty claim'' \<notin> set main_menu_commands"
  "''ord-1001'' \<notin> set main_menu_commands"
  "''no'' \<notin> set main_menu_commands"
  by (simp_all add: main_menu_commands_def)

lemma claim_contexts_user:
  "ctx_user_data ctx0 \<noteq> None" "ctx_user_data ctx_order_id_awaited \<noteq> None"
  "ctx_user_data ctx_policy_shown \<noteq> None"
  by (simp_all add: ctx_defs)

section \<open>Budget Parser: properties\<close>

lemma lower_char_digit: "is_digit (lower_char c) \<longleftrightarrow> is_digit c"
  by (auto simp: is_digit_def lower_char_def split: option.splits if_splits)

lemma find_k_number_no_digit: "\<forall>c\<in>set s. \<not> is_digit c \<Longrightarrow> find_k_number s = None"
  by (induction s) (simp_all add: match_k_number_def)

lemma first_digits_no_digit:
  assumes "\<forall>c\<in>set s. \<not> is_digit c"
  shows "first_digits s = []"
proof -
  from assms have h: "dropWhile (\<lambda>c. \<not> is_digit c) s = []" by (induction s) simp_all
  show ?thesis by (simp only: first_digits_def h takeWhile.simps)
qed

lemma first_digits_digit:
  assumes "\<exists>c\<in>set s. is_digit c"
  shows "first_digits s \<noteq> []"
proof -
  from assms have ne: "dropWhile (\<lambda>c. \<not> is_digit c) s \<noteq> []"
    by (simp add: dropWhile_eq_Nil_conv)
  then have "is_digit (hd (dropWhile (\<lambda>c. \<not> is_digit c) s))"
    using hd_dropWhile [of "\<lambda>c. \<not> is_digit c" s] by simp
  with ne show ?thesis
    by (cases "dropWhile (\<lambda>c. \<not> is_digit c) s") (simp_all add: first_digits_def)
qed

lemma budget_amount_no_digit: "\<forall>c\<in>set s. \<not> is_digit c \<Longrightarrow> budget_amount s = None"
  by (simp add: budget_amount_def find_k_number_no_digit first_digits_no_digit)

lemma budget_amount_digit: "\<exists>c\<in>set s. is_digit c \<Longrightarrow> budget_amount s \<noteq> None"
  by (simp add: budget_amount_def first_digits_digit split: option.splits)

lemma str_lower_digit: "(\<exists>c\<in>set (str_lower s). is_digit c) \<longleftrightarrow> (\<exists>c\<in>set s. is_digit c)"
  by (simp add: str_lower_def lower_char_digit)

lemma parse_budget_no_digit:
  assumes "budget_text \<noteq> []" and "\<not> (\<exists>c\<in>set budget_text. is_digit c)"
  shows "parse_budget_constraints budget_text = Some initial_constraints"
proof -
  from assms(2) have "\<forall>c\<in>set (str_lower budget_text). \<not> is_digit c"
    using str_lower_digit [of budget_text] by blast
  then have "budget_amount (str_lower budget_text) = None" by (rule budget_amount_no_digit)
  with assms(1) show ?thesis by (simp add: parse_budget_constraints_def)
qed

lemma parse_budget_digit:
  assumes "\<exists>c\<in>set budget_text. is_digit c"
  shows "\<exists>bc. parse_budget_constraints budget_text = Some bc \<and> bc \<noteq> initial_constraints"
proof -
  from assms have ne: "budget_text \<noteq> []" by auto
  from assms have "budget_amount (str_lower budget_text) \<noteq> None"
    by (intro budget_amount_digit) (simp add: str_lower_digit)
  then obtain amount where "budget_amount (str_lower budget_text) = Some amount" by auto
  with ne show ?thesis
    by (simp add: parse_budget_constraints_def Let_def initial_constraints_def)
qed

lemma nan_facts:
  "is_ascii ''nan''" "''nan'' \<noteq> []" "\<not> (\<exists>c\<in>set ''nan''. is_digit c)" "float_accepts ''nan''"
  by (simp_all add: is_ascii_def is_digit_def float_accepts_def float_next_def lower_char_def
      is_c_space_def float_final_def)

lemma lower_hello: "str_lower ''hello'' = ''hello''"
  by (simp add: str_lower_def lower_char_def)

lemma understand_nan:
  "understand_with_gpt shop_nan ''hello'' =
     (''product_inquiry'', [''max_price'' \<mapsto> ''nan'', ''max_price_inr'' \<mapsto> ''0''])"
  unfolding understand_with_gpt_def lower_hello
  by (simp add: match_order_id_def brands_understanding_def shop_nan_def demo_def nan_facts
      str_lower_def lower_char_def)

text \<open>
  Claim C8, as stated: a budget phrase with no numeric value gives null. It fails at the
  budget entity \<open>nan\<close>: the text passes the numeric conversion of the understanding step,
  so it reaches the parser; it holds no digit, and the parser gives it a constraint record.
\<close>

theorem parse_budget_nan_counterexample:
  "snd (understand_with_gpt shop_nan ''hello'') ''max_price'' = Some ''nan'' \<and>
   \<not> (\<exists>c\<in>set ''nan''. is_digit c) \<and>
   parse_budget_constraints ''nan'' \<noteq> None"
  using parse_budget_no_digit [OF nan_facts(2,3)] nan_facts(3)
  by (simp add: understand_nan)

text \<open>
  Claim C8, amended, for a budget phrase of ASCII characters: the parser returns null for
  the empty phrase and for no other; it returns the initial constraint record (kind
  \<open>around\<close>, lower bound 0, no upper bound, target 0) for the non-empty phrases with no digit
  and for no other; a phrase with a digit is given a record that is not the initial one.
\<close>

theorem parse_budget_null_only_when_empty:
  assumes "is_ascii budget_text"
  shows "(parse_budget_constraints budget_text = None \<longleftrightarrow> budget_text = []) \<and>
         (parse_budget_constraints budget_text = Some initial_constraints \<longleftrightarrow>
            budget_text \<noteq> [] \<and> \<not> (\<exists>c\<in>set budget_text. is_digit c)) \<and>
         ((\<exists>c\<in>set budget_text. is_digit c) \<longrightarrow>
            (\<exists>bc. parse_budget_constraints budget_text = Some bc \<and> bc \<noteq> initial_constraints))"
proof -
  have empty: "parse_budget_constraints [] = None"
    by (simp add: parse_budget_constraints_def)
  show ?thesis
  proof (cases "budget_text = []")
    case True
    then show ?thesis using empty by simp
  next
    case False
    show ?thesis
    proof (cases "\<exists>c\<in>set budget_text. is_digit c")
      case True
      from parse_budget_digit [OF True] False True show ?thesis by auto
    next
      case nd: False
      from parse_budget_no_digit [OF False nd] False nd show ?thesis by simp
    qed
  qed
qed

lemma digits_50000:
  "is_ascii ''50000''" "\<exists>c\<in>set ''50000''. is_digit c"
  by (simp_all add: is_ascii_def is_digit_def)

theorem parse_budget_null_only_when_empty_witness:
  "is_ascii ''nan'' \<and> \<not> (\<exists>c\<in>set ''nan''. is_digit c) \<and>
   parse_budget_constraints ''nan'' = Some initial_constraints \<and>
   is_ascii ''50000'' \<and> (\<exists>c\<in>set ''50000''. is_digit c) \<and>
   parse_budget_constraints ''50000'' \<noteq> None \<and>
   parse_budget_constraints ''50000'' \<noteq> Some initial_constraints"
  using parse_budget_null_only_when_empty [OF nan_facts(1)]
    parse_budget_null_only_when_empty [OF digits_50000(1)] nan_facts digits_50000
  by auto

section \<open>Numeric conversion: properties\<close>












section \<open>Product Finder: the price filter\<close>






text \<open>
  The filter for a constraint of kind \<open>around\<close> with a finite upper bound: it widens the
  bounds of the constraint by 20 percent on each side before it compares.
\<close>

lemma passes_price_filter_around:
  "constraint_type bc = Around \<Longrightarrow> max_price_jpy bc = Finite hi \<Longrightarrow>
   passes_price_filter (Some bc) p =
     (min_price_jpy bc * (8 / 10) \<le> of_int p \<and> of_int p \<le> hi * (12 / 10))"
  by (auto simp: passes_price_filter_def exceeds_def bound_times_def Let_def)












section \<open>Warranty confirmation\<close>

text \<open>What the handler does on a reply that is not affirmative, for any context.\<close>

lemma warranty_decline_keeps_transaction:
  "\<not> any_in warranty_positive_responses (str_lower m) \<Longrightarrow>
   transaction_snapshot (fst (handle_warranty_confirmation co c m)) = transaction_snapshot c \<and>
   awaiting_warranty_confirmation (fst (handle_warranty_confirmation co c m)) = Some False"
  by (simp add: handle_warranty_confirmation_def handle_with_gpt_def clear_keys_def
      transaction_snapshot_def)

text \<open>
  Claim C6, evaluated on the code. In the session \<open>file warranty claim\<close>, \<open>ORD-1001\<close>, \<open>no\<close>
  the second message leaves the session awaiting the warranty-policy confirmation, and
  after the reply \<open>no\<close>, which is not affirmative, the context still holds the
  transaction type, the order snapshot and the order id; the flag is set to false, not
  removed.
\<close>

theorem warranty_decline_leaves_transaction_fields:
  "dm_context (fst (run_session alice initial_manager
       [(demo, ''file warranty claim''), (demo, ''ORD-1001'')])) = ctx_policy_shown \<and>
   awaiting_warranty_confirmation ctx_policy_shown = Some True \<and>
   \<not> any_in warranty_positive_responses (str_lower ''no'') \<and>
   dm_context (fst (run_session alice initial_manager
       [(demo, ''file warranty claim''), (demo, ''ORD-1001''), (demo, ''no'')])) = ctx_declined \<and>
   transaction_type ctx_declined = Some Warranty \<and>
   current_order ctx_declined = Some order_1001 \<and>
   current_order_id ctx_declined = Some ''ORD-1001'' \<and>
   awaiting_warranty_confirmation ctx_declined = Some False \<and>
   \<not> transaction_fields_cleared ctx_declined"
proof -
  let ?r1 = "reply ''chat'' (Some ''warranty_claim'')"
  let ?r3 = "reply ''chat'' (Some ''general_question'')"
  let ?d1 = "after_turn initial_manager alice ''file warranty claim'' ctx_order_id_awaited None
               (Returned ?r1)"
  let ?d2 = "after_turn ?d1 alice ''ORD-1001'' ctx_policy_shown None
               (Completed (policy_response demo))"
  let ?d3 = "after_turn ?d2 alice ''no'' ctx_declined None (Completed ?r3)"
  have h1: "handle_message initial_manager demo ''file warranty claim'' alice ctx0 = (?d1, Some ?r1)"
    using routed_step [OF _ _ _ claim_contexts_user(1) try_file_claim, of initial_manager]
    by (simp add: lower_file_claim claim_messages_not_menu)
  have h2: "handle_message ?d1 demo ''ORD-1001'' alice ctx_order_id_awaited
              = (?d2, Some (policy_response demo))"
    using routed_step [OF _ _ _ claim_contexts_user(2) try_ord_1001, of ?d1]
    by (simp add: lower_ord_1001 claim_messages_not_menu)
  have h3: "handle_message ?d2 demo ''no'' alice ctx_policy_shown = (?d3, Some ?r3)"
    using routed_step [OF _ _ _ claim_contexts_user(3) try_no, of ?d2]
    by (simp add: lower_no claim_messages_not_menu)
  have a3: "session_loop alice ?d2 ctx_policy_shown [(demo, ''no'')] = (?d3, [?r3])"
    by (rule session_loop_last [OF strip_claim_messages(3) _ h3]) simp_all
  have a2: "session_loop alice ?d1 ctx_order_id_awaited [(demo, ''ORD-1001''), (demo, ''no'')]
              = (?d3, [policy_response demo, ?r3])"
    by (rule session_loop_step [OF strip_claim_messages(2) _ h2 _ _ a3]) simp_all
  have a1: "session_loop alice initial_manager ctx0
              [(demo, ''file warranty claim''), (demo, ''ORD-1001''), (demo, ''no'')]
              = (?d3, [?r1, policy_response demo, ?r3])"
    by (rule session_loop_step [OF strip_claim_messages(1) _ h1 _ _ a2]) simp_all
  have b2: "session_loop alice ?d1 ctx_order_id_awaited [(demo, ''ORD-1001'')]
              = (?d2, [policy_response demo])"
    by (rule session_loop_last [OF strip_claim_messages(2) _ h2]) simp_all
  have b1: "session_loop alice initial_manager ctx0
              [(demo, ''file warranty claim''), (demo, ''ORD-1001'')]
              = (?d2, [?r1, policy_response demo])"
    by (rule session_loop_step [OF strip_claim_messages(1) _ h1 _ _ b2]) simp_all
  have no: "\<not> any_in warranty_positive_responses (str_lower ''no'')"
    by (simp add: lower_no any_in_def warranty_positive_responses_def)
  have fields: "awaiting_warranty_confirmation ctx_policy_shown = Some True"
    "transaction_type ctx_declined = Some Warranty"
    "current_order ctx_declined = Some order_1001"
    "current_order_id ctx_declined = Some ''ORD-1001''"
    "awaiting_warranty_confirmation ctx_declined = Some False"
    "\<not> transaction_fields_cleared ctx_declined"
    by (simp_all add: ctx_defs transaction_fields_cleared_def)
  show ?thesis
    unfolding run_session_def ctx0_def [symmetric] a1 b1
    using no fields by simp
qed

section \<open>Escalation\<close>

text \<open>Nothing sets \<open>escalation_pending\<close>: it stays false, and no handoff is attempted.\<close>

lemma handle_message_pending:
  assumes "\<not> escalation_pending dm"
  shows "\<not> escalation_pending (fst (handle_message dm co m u c)) \<and>
         handoff_attempts (fst (handle_message dm co m u c)) = handoff_attempts dm"
  using assms
  by (auto simp: handle_message_def handle_main_menu_def offer_escalation_def Let_def
      split: prod.splits outcome.splits)


lemma after_offer_simps [simp]:
  "dm_context (after_offer dm u m c) = c"
  "response_count (after_offer dm u m c) = Suc (response_count dm)"
  "escalation_offered (after_offer dm u m c)"
  "escalation_pending (after_offer dm u m c) = escalation_pending dm"
  "handoff_attempts (after_offer dm u m c) = handoff_attempts dm"
  by (simp_all add: after_offer_def)

lemma offer_step:
  assumes "str_lower m \<notin> set main_menu_commands"
      and "\<not> escalation_pending dm"
      and "3 \<le> response_count dm" and "\<not> escalation_offered dm"
      and "ctx_user_data c \<noteq> None"
  shows "handle_message dm co m u c = (after_offer dm u m c, Some (snd (offer_escalation dm)))"
  using assms
  by (auto simp: handle_message_def Let_def offer_escalation_def after_offer_def)

lemma offer_response_simps [simp]:
  "intent (snd (offer_escalation dm)) = Some ''escalation_offer''"
  "\<not> escalated (snd (offer_escalation dm))"
  "offers_escalation (snd (offer_escalation dm))"
  by (simp_all add: offer_escalation_def reply_def)

lemma lower_hi: "str_lower ''hi'' = ''hi''" by (simp add: str_lower_def lower_char_def)
lemma lower_yes: "str_lower ''yes'' = ''yes''" by (simp add: str_lower_def lower_char_def)

lemma try_hi:
  "try_block demo ctx0 alice ''hi'' = (ctx0, None, Completed (reply ''chat'' (Some ''general_question'')))"
  unfolding try_block_def is_warranty_policy_inquiry_def handle_context_switching_def Let_def
    lower_hi should_use_gpt_directly_def understand_with_gpt_def
  by (simp add: any_in_def newline_def ctx_defs clear_purchase_context_def is_set_def
      purchase_keywords_def clear_keys_def dispatch_def comparison_words_def color_words_def
      has_products_def match_order_id_def brands_understanding_def demo_def lower_hi
      transaction_intent_of_def handle_with_gpt_def no_commit_def Let_def)

lemma try_yes:
  "try_block demo ctx0 alice ''yes'' = (ctx0, None, Completed (reply ''chat'' (Some ''general_question'')))"
  unfolding try_block_def is_warranty_policy_inquiry_def handle_context_switching_def Let_def
    lower_yes should_use_gpt_directly_def understand_with_gpt_def
  by (simp add: any_in_def newline_def ctx_defs clear_purchase_context_def is_set_def
      purchase_keywords_def clear_keys_def dispatch_def comparison_words_def color_words_def
      has_products_def match_order_id_def brands_understanding_def demo_def lower_yes
      transaction_intent_of_def handle_with_gpt_def no_commit_def Let_def)

lemma strip_hi: "strip ''hi'' = ''hi''" "strip ''yes'' = ''yes''"
  by (simp_all add: strip_def is_space_def)

lemma hi_not_menu: "''hi'' \<notin> set main_menu_commands" "''yes'' \<notin> set main_menu_commands"
  by (simp_all add: main_menu_commands_def)

text \<open>
  Claim C3, evaluated on the code. In a session of four messages \<open>hi\<close> and then \<open>yes\<close>, on
  a fresh manager, the fourth reply is the escalation offer and the fifth message, an
  acceptance by the word list of \<open>_handle_escalation_response\<close>, is answered through the
  normal routing: no handoff is attempted and no reply is escalated, though the handoff
  would succeed.
\<close>

theorem escalation_reply_takes_normal_routing:
  "map intent (snd (run_session alice initial_manager
       [(demo, ''hi''), (demo, ''hi''), (demo, ''hi''), (demo, ''hi''), (demo, ''yes'')])) =
     [Some ''general_question'', Some ''general_question'', Some ''general_question'',
      Some ''escalation_offer'', Some ''general_question''] \<and>
   map escalated (snd (run_session alice initial_manager
       [(demo, ''hi''), (demo, ''hi''), (demo, ''hi''), (demo, ''hi''), (demo, ''yes'')])) =
     [False, False, False, False, False] \<and>
   handoff_attempts (fst (run_session alice initial_manager
       [(demo, ''hi''), (demo, ''hi''), (demo, ''hi''), (demo, ''hi''), (demo, ''yes'')])) = 0 \<and>
   any_in escalation_accept_words (str_lower ''yes'')"
proof -
  let ?r = "reply ''chat'' (Some ''general_question'')"
  let ?d1 = "after_turn initial_manager alice ''hi'' ctx0 None (Completed ?r)"
  let ?d2 = "after_turn ?d1 alice ''hi'' ctx0 None (Completed ?r)"
  let ?d3 = "after_turn ?d2 alice ''hi'' ctx0 None (Completed ?r)"
  let ?d4 = "after_offer ?d3 alice ''hi'' ctx0"
  let ?d5 = "after_turn ?d4 alice ''yes'' ctx0 None (Completed ?r)"
  have h1: "handle_message initial_manager demo ''hi'' alice ctx0 = (?d1, Some ?r)"
    using routed_step [OF _ _ _ claim_contexts_user(1) try_hi, of initial_manager]
    by (simp add: lower_hi hi_not_menu)
  have h2: "handle_message ?d1 demo ''hi'' alice ctx0 = (?d2, Some ?r)"
    using routed_step [OF _ _ _ claim_contexts_user(1) try_hi, of ?d1]
    by (simp add: lower_hi hi_not_menu)
  have h3: "handle_message ?d2 demo ''hi'' alice ctx0 = (?d3, Some ?r)"
    using routed_step [OF _ _ _ claim_contexts_user(1) try_hi, of ?d2]
    by (simp add: lower_hi hi_not_menu)
  have h4: "handle_message ?d3 demo ''hi'' alice ctx0 = (?d4, Some (snd (offer_escalation ?d3)))"
    by (rule offer_step) (simp_all add: lower_hi hi_not_menu claim_contexts_user)
  have h5: "handle_message ?d4 demo ''yes'' alice ctx0 = (?d5, Some ?r)"
    using routed_step [OF _ _ _ claim_contexts_user(1) try_yes, of ?d4]
    by (simp add: lower_yes hi_not_menu)
  have a5: "session_loop alice ?d4 ctx0 [(demo, ''yes'')] = (?d5, [?r])"
    by (rule session_loop_last [OF strip_hi(2) _ h5]) simp_all
  have a4: "session_loop alice ?d3 ctx0 [(demo, ''hi''), (demo, ''yes'')]
      = (?d5, [snd (offer_escalation ?d3), ?r])"
    by (rule session_loop_step [OF strip_hi(1) _ h4 _ _ a5]) simp_all
  have a3: "session_loop alice ?d2 ctx0 [(demo, ''hi''), (demo, ''hi''), (demo, ''yes'')]
      = (?d5, [?r, snd (offer_escalation ?d3), ?r])"
    by (rule session_loop_step [OF strip_hi(1) _ h3 _ _ a4]) simp_all
  have a2: "session_loop alice ?d1 ctx0 [(demo, ''hi''), (demo, ''hi''), (demo, ''hi''), (demo, ''yes'')]
      = (?d5, [?r, ?r, snd (offer_escalation ?d3), ?r])"
    by (rule session_loop_step [OF strip_hi(1) _ h2 _ _ a3]) simp_all
  have a1: "session_loop alice initial_manager ctx0
       [(demo, ''hi''), (demo, ''hi''), (demo, ''hi''), (demo, ''hi''), (demo, ''yes'')]
      = (?d5, [?r, ?r, ?r, snd (offer_escalation ?d3), ?r])"
    by (rule session_loop_step [OF strip_hi(1) _ h1 _ _ a2]) simp_all
  have yes: "any_in escalation_accept_words (str_lower ''yes'')"
    by (simp add: lower_yes any_in_def escalation_accept_words_def)
  show ?thesis
    unfolding run_session_def ctx0_def [symmetric] a1
    using yes by simp
qed

end
